theory Spec2Isabelle
  imports Main "HOL-Library.Finite_Map"
begin

section \<open>Data model of pkg/sessions.go\<close>

text \<open>
  A \<open>Role\<close> is compared and used as a map key by value.  The Go type is declared
  outside sessions.go; the two fields below are the ones sessions.go reads
  (\<open>role.RoleArn\<close>, \<open>role.ExternalID\<close>).
\<close>

record Role =
  RoleArn :: string
  ExternalID :: string

text \<open>
  Discovery jobs and static jobs are two Go types; sessions.go reads only their
  \<open>Roles\<close> and \<open>Regions\<close> slices, so one record serves for both.
  \<open>config.Discovery.Jobs\<close> is the field \<open>DiscoveryJobs\<close>.
\<close>

record Job =
  Roles :: "Role list"
  Regions :: "string list"

record ScrapeConf =
  StsRegion :: string
  DiscoveryJobs :: "Job list"
  Static :: "Job list"

text \<open>The logger is only asked \<open>IsDebugEnabled()\<close>.\<close>

record Logger =
  IsDebugEnabled :: bool

subsection \<open>The SDK objects, as the values sessions.go hands to the SDK\<close>

datatype LogLevelType = LogDebugWithHTTPBody

datatype ResolverFunc = DefaultResolver | OverrideResolver string

datatype STSRegionalEndpointType = RegionalSTSEndpoint

text \<open>\<open>client.DefaultRetryer\<close>; the four delays are in seconds.\<close>

record DefaultRetryer =
  NumMaxRetries :: nat
  MaxThrottleDelay :: nat
  MinThrottleDelay :: nat
  MaxRetryDelay :: nat
  MinRetryDelay :: nat

text \<open>
  The session object built by \<open>createAWSSession\<close>.  A \<open>*session.Session\<close> that may
  be nil, such as the field \<open>session\<close> of the cache, is a \<open>Session option\<close>.
\<close>

record Session =
  sessEndpointResolver :: ResolverFunc
  sessCredentialsChainVerboseErrors :: bool
  sessLogLevel :: "LogLevelType option"

text \<open>\<open>stscreds.NewCredentials(sess, role.RoleArn, setExternalID(role.ExternalID))\<close>.\<close>

record AssumeRoleProvider =
  providerSession :: Session
  providerRoleArn :: string
  providerExternalID :: "string option"

text \<open>The fields of \<open>aws.Config\<close> that sessions.go sets; an unset field is \<open>None\<close>.\<close>

record Config =
  Region :: "string option"
  MaxRetries :: "nat option"
  Retryer :: "DefaultRetryer option"
  Endpoint :: "string option"
  LogLevel :: "LogLevelType option"
  Credentials :: "AssumeRoleProvider option"
  CredentialsChainVerboseErrors :: "bool option"
  STSRegionalEndpoint :: "STSRegionalEndpointType option"

datatype Service =
  STS | CloudWatch | ResourceGroupsTaggingAPI | AutoScaling | EC2
  | DatabaseMigrationService | APIGateway

text \<open>
  A client is what \<open>sts.New(sess, config)\<close>, \<open>cloudwatch.New(sess, config)\<close>, ...
  were given: the service, the session and the configuration.
\<close>

record Client =
  service :: Service
  clientSession :: Session
  clientConfig :: Config

subsection \<open>The cache\<close>

record clientCache =
  onlyStatic :: bool
  cloudwatch :: "Client option"
  tagging :: "Client option"
  asg :: "Client option"
  ec2 :: "Client option"
  dms :: "Client option"
  apiGateway :: "Client option"

text \<open>
  \<open>sessionCache\<close>, without the mutex (the model is sequential).  Two counters are
  added to observe effects: \<open>sessionsCreated\<close> counts the calls of
  \<open>createAWSSession\<close>, \<open>clientsBuilt\<close> the calls of the seven client builders that
  returned into the cache.
\<close>

record sessionCache =
  stsRegion :: string
  session :: "Session option"
  endpointResolver :: ResolverFunc
  stscache :: "(Role, Client option) fmap"
  clients :: "(Role, (string, clientCache) fmap) fmap"
  cleared :: bool
  refreshed :: bool
  fips :: bool
  logger :: Logger
  sessionsCreated :: nat
  clientsBuilt :: nat

datatype error = NilPointerDereference

section \<open>The client builders\<close>

text \<open>
  The builders below are the functions \<open>createStsSession\<close>, ... on a session that
  is there.  Each of them hands its \<open>sess\<close> to the SDK
  (\<open>stscreds.NewCredentials(sess, ...)\<close> when the role has an ARN, then
  \<open>sts.New(sess, ...)\<close>, \<open>cloudwatch.New(sess, ...)\<close>, ...), and the SDK reads the
  configuration of the session through the pointer.  Called with a nil \<open>sess\<close> a
  builder therefore panics with a nil-pointer dereference and returns nothing; that
  branch is written out at every place where the cache calls a builder with its
  \<open>session\<close> field, which may be nil.
\<close>

definition emptyConfig :: Config where
  "emptyConfig = \<lparr>Region = None, MaxRetries = None, Retryer = None, Endpoint = None,
     LogLevel = None, Credentials = None, CredentialsChainVerboseErrors = None,
     STSRegionalEndpoint = None\<rparr>"

definition setExternalID :: "string \<Rightarrow> string option" where
  "setExternalID ID = (if ID \<noteq> [] then Some ID else None)"

definition setSTSCreds :: "Session \<Rightarrow> Config \<Rightarrow> Role \<Rightarrow> Config" where
  "setSTSCreds sess config role =
     (if RoleArn role \<noteq> [] then
        config\<lparr>Credentials := Some \<lparr>providerSession = sess, providerRoleArn = RoleArn role,
                                    providerExternalID = setExternalID (ExternalID role)\<rparr>\<rparr>
      else config)"

definition getAwsRetryer :: DefaultRetryer where
  "getAwsRetryer = \<lparr>NumMaxRetries = 5, MaxThrottleDelay = 10, MinThrottleDelay = 1,
     MaxRetryDelay = 3, MinRetryDelay = 1\<rparr>"

definition withDebug :: "bool \<Rightarrow> Config \<Rightarrow> Config" where
  "withDebug isDebugEnabled config =
     (if isDebugEnabled then config\<lparr>LogLevel := Some LogDebugWithHTTPBody\<rparr> else config)"

definition withFips :: "bool \<Rightarrow> string \<Rightarrow> string \<Rightarrow> Config \<Rightarrow> Config" where
  "withFips fipsFlag prefix region config =
     (if fipsFlag then config\<lparr>Endpoint := Some (prefix @ region @ ''.amazonaws.com'')\<rparr>
      else config)"

text \<open>
  \<open>createAWSSession\<close> always sets \<open>CredentialsChainVerboseErrors\<close> and enables
  the shared configuration.  \<open>session.Must\<close> is taken to succeed: loading the shared
  configuration belongs to the SDK and the environment, not to sessions.go.
\<close>

definition createAWSSession :: "ResolverFunc \<Rightarrow> bool \<Rightarrow> Session" where
  "createAWSSession resolver isDebugEnabled =
     \<lparr>sessEndpointResolver = resolver, sessCredentialsChainVerboseErrors = True,
      sessLogLevel = (if isDebugEnabled then Some LogDebugWithHTTPBody else None)\<rparr>"

definition createStsSession ::
  "Session \<Rightarrow> Role \<Rightarrow> string \<Rightarrow> bool \<Rightarrow> bool \<Rightarrow> Client" where
  "createStsSession sess role region fipsFlag isDebugEnabled =
     (let config = emptyConfig\<lparr>MaxRetries := Some 5\<rparr>;
          config = (if region \<noteq> [] then
                      config\<lparr>Region := Some region,
                             STSRegionalEndpoint := Some RegionalSTSEndpoint\<rparr>
                    else config);
          config = withFips fipsFlag ''https://sts-fips.'' region config;
          config = withDebug isDebugEnabled config
      in \<lparr>service = STS, clientSession = sess, clientConfig = setSTSCreds sess config role\<rparr>)"

definition createCloudwatchSession ::
  "Session \<Rightarrow> string \<Rightarrow> Role \<Rightarrow> bool \<Rightarrow> bool \<Rightarrow> Client" where
  "createCloudwatchSession sess region role fipsFlag isDebugEnabled =
     (let config = emptyConfig\<lparr>Region := Some region, Retryer := Some getAwsRetryer\<rparr>;
          config = withFips fipsFlag ''https://monitoring-fips.'' region config;
          config = withDebug isDebugEnabled config
      in \<lparr>service = CloudWatch, clientSession = sess,
          clientConfig = setSTSCreds sess config role\<rparr>)"

definition createTagSession :: "Session \<Rightarrow> string \<Rightarrow> Role \<Rightarrow> bool \<Rightarrow> Client" where
  "createTagSession sess region role isDebugEnabled =
     (let config = emptyConfig\<lparr>Region := Some region, MaxRetries := Some 5,
                                CredentialsChainVerboseErrors := Some True\<rparr>;
          config = withDebug isDebugEnabled config
      in \<lparr>service = ResourceGroupsTaggingAPI, clientSession = sess,
          clientConfig = setSTSCreds sess config role\<rparr>)"

definition createASGSession :: "Session \<Rightarrow> string \<Rightarrow> Role \<Rightarrow> bool \<Rightarrow> Client" where
  "createASGSession sess region role isDebugEnabled =
     (let config = emptyConfig\<lparr>Region := Some region, MaxRetries := Some 5\<rparr>;
          config = withDebug isDebugEnabled config
      in \<lparr>service = AutoScaling, clientSession = sess,
          clientConfig = setSTSCreds sess config role\<rparr>)"

definition createEC2Session ::
  "Session \<Rightarrow> string \<Rightarrow> Role \<Rightarrow> bool \<Rightarrow> bool \<Rightarrow> Client" where
  "createEC2Session sess region role fipsFlag isDebugEnabled =
     (let config = emptyConfig\<lparr>Region := Some region, MaxRetries := Some 10\<rparr>;
          config = withFips fipsFlag ''https://ec2-fips.'' region config;
          config = withDebug isDebugEnabled config
      in \<lparr>service = EC2, clientSession = sess, clientConfig = setSTSCreds sess config role\<rparr>)"

definition createDMSSession ::
  "Session \<Rightarrow> string \<Rightarrow> Role \<Rightarrow> bool \<Rightarrow> bool \<Rightarrow> Client" where
  "createDMSSession sess region role fipsFlag isDebugEnabled =
     (let config = emptyConfig\<lparr>Region := Some region, MaxRetries := Some 5\<rparr>;
          config = withFips fipsFlag ''https://dms-fips.'' region config;
          config = withDebug isDebugEnabled config
      in \<lparr>service = DatabaseMigrationService, clientSession = sess,
          clientConfig = setSTSCreds sess config role\<rparr>)"

definition createAPIGatewaySession ::
  "Session \<Rightarrow> string \<Rightarrow> Role \<Rightarrow> bool \<Rightarrow> bool \<Rightarrow> Client" where
  "createAPIGatewaySession sess region role fipsFlag isDebugEnabled =
     (let config = emptyConfig\<lparr>Region := Some region, MaxRetries := Some 5\<rparr>;
          config = withFips fipsFlag ''https://apigateway-fips.'' region config;
          config = withDebug isDebugEnabled config
      in \<lparr>service = APIGateway, clientSession = sess,
          clientConfig = setSTSCreds sess config role\<rparr>)"

section \<open>NewSessionCache\<close>

definition newClientCache :: "bool \<Rightarrow> clientCache" where
  "newClientCache static = \<lparr>onlyStatic = static, cloudwatch = None, tagging = None,
     asg = None, ec2 = None, dms = None, apiGateway = None\<rparr>"

type_synonym caches = "(Role, Client option) fmap \<times> (Role, (string, clientCache) fmap) fmap"

text \<open>
  The body of the loop over the roles of a job.  \<open>roleCache[role]\<close> is a reference to
  the inner map, created empty when the role is new; the loop over the regions writes
  into that inner map.  \<open>regionStep\<close> is the body of the loop over the regions.
\<close>

definition roleStep ::
  "((string, clientCache) fmap \<Rightarrow> string \<Rightarrow> (string, clientCache) fmap) \<Rightarrow>
   string list \<Rightarrow> caches \<Rightarrow> Role \<Rightarrow> caches" where
  "roleStep regionStep regions c role =
     (let stsc = (case fmlookup (fst c) role of None \<Rightarrow> fmupd role None (fst c)
                                             | Some _ \<Rightarrow> fst c);
          inner = (case fmlookup (snd c) role of None \<Rightarrow> fmempty | Some m \<Rightarrow> m)
      in (stsc, fmupd role (foldl regionStep inner regions) (snd c)))"

definition discoveryRegion ::
  "(string, clientCache) fmap \<Rightarrow> string \<Rightarrow> (string, clientCache) fmap" where
  "discoveryRegion m region = fmupd region (newClientCache False) m"

definition staticRegion ::
  "(string, clientCache) fmap \<Rightarrow> string \<Rightarrow> (string, clientCache) fmap" where
  "staticRegion m region =
     (case fmlookup m region of None \<Rightarrow> fmupd region (newClientCache True) m
                              | Some _ \<Rightarrow> m)"

definition jobsLoop ::
  "((string, clientCache) fmap \<Rightarrow> string \<Rightarrow> (string, clientCache) fmap) \<Rightarrow>
   caches \<Rightarrow> Job list \<Rightarrow> caches" where
  "jobsLoop regionStep c jobs =
     foldl (\<lambda>c job. foldl (roleStep regionStep (Regions job)) c (Roles job)) c jobs"

definition buildCaches :: "ScrapeConf \<Rightarrow> caches" where
  "buildCaches config =
     jobsLoop staticRegion
       (jobsLoop discoveryRegion (fmempty, fmempty) (DiscoveryJobs config))
       (Static config)"

text \<open>
  \<open>endpointUrlOverride\<close> is the value of the environment variable
  \<open>AWS_ENDPOINT_URL\<close>, read by \<open>os.Getenv\<close>.
\<close>

definition NewSessionCache :: "ScrapeConf \<Rightarrow> bool \<Rightarrow> Logger \<Rightarrow> string \<Rightarrow> sessionCache" where
  "NewSessionCache config fipsFlag lg endpointUrlOverride =
     \<lparr>stsRegion = StsRegion config,
      session = None,
      endpointResolver = (if endpointUrlOverride \<noteq> [] then OverrideResolver endpointUrlOverride
                          else DefaultResolver),
      stscache = fst (buildCaches config),
      clients = snd (buildCaches config),
      cleared = False,
      refreshed = False,
      fips = fipsFlag,
      logger = lg,
      sessionsCreated = 0,
      clientsBuilt = 0\<rparr>"

section \<open>Clear and Refresh\<close>

definition clearEntry :: "clientCache \<Rightarrow> clientCache" where
  "clearEntry e = e\<lparr>cloudwatch := None, tagging := None, asg := None, ec2 := None,
                    dms := None, apiGateway := None\<rparr>"

definition Clear :: "sessionCache \<Rightarrow> sessionCache" where
  "Clear s =
     (if cleared s then s
      else s\<lparr>stscache := fmmap (\<lambda>_. None) (stscache s),
             clients := fmmap (fmmap clearEntry) (clients s),
             cleared := True,
             refreshed := False\<rparr>)"

text \<open>The body of the inner loop of Refresh, for one role and region.\<close>

definition refreshEntry ::
  "Session \<Rightarrow> bool \<Rightarrow> bool \<Rightarrow> Role \<Rightarrow> string \<Rightarrow> clientCache \<Rightarrow> clientCache" where
  "refreshEntry sess fipsFlag dbg role region e =
     (let e = e\<lparr>cloudwatch := Some (createCloudwatchSession sess region role fipsFlag dbg)\<rparr>
      in if onlyStatic e then e
         else e\<lparr>tagging := Some (createTagSession sess region role dbg),
                asg := Some (createASGSession sess region role dbg),
                ec2 := Some (createEC2Session sess region role fipsFlag dbg),
                dms := Some (createDMSSession sess region role fipsFlag dbg),
                apiGateway := Some (createAPIGatewaySession sess region role fipsFlag dbg)\<rparr>)"

definition fmsum :: "('k \<Rightarrow> 'v \<Rightarrow> nat) \<Rightarrow> ('k, 'v) fmap \<Rightarrow> nat" where
  "fmsum f m = (\<Sum>k \<in> fmdom' m. case fmlookup m k of None \<Rightarrow> 0 | Some v \<Rightarrow> f k v)"

text \<open>The number of builder calls of one Refresh that is not the no-op.\<close>

definition refreshBuilds :: "sessionCache \<Rightarrow> nat" where
  "refreshBuilds s =
     fmsum (\<lambda>_ _. 1) (stscache s)
     + fmsum (\<lambda>_. fmsum (\<lambda>_ e. if onlyStatic e then 1 else 6)) (clients s)"

text \<open>
  The two loops of Refresh and its last two assignments; \<open>sess\<close> is what the field
  \<open>session\<close> holds by then, which is not nil.
\<close>

definition refreshAll :: "Session \<Rightarrow> sessionCache \<Rightarrow> sessionCache" where
  "refreshAll sess s =
     (let dbg = IsDebugEnabled (logger s)
      in s\<lparr>stscache :=
             fmmap_keys (\<lambda>role _. Some (createStsSession sess role (stsRegion s) (fips s) dbg))
               (stscache s),
           clients :=
             fmmap_keys (\<lambda>role. fmmap_keys (refreshEntry sess (fips s) dbg role)) (clients s),
           clientsBuilt := clientsBuilt s + refreshBuilds s,
           cleared := False,
           refreshed := True\<rparr>)"

definition Refresh :: "sessionCache \<Rightarrow> sessionCache" where
  "Refresh s =
     (if refreshed s then s
      else
        (case session s of
           None \<Rightarrow>
             (let sess = createAWSSession (endpointResolver s) (IsDebugEnabled (logger s))
              in refreshAll sess (s\<lparr>session := Some sess,
                                    sessionsCreated := sessionsCreated s + 1\<rparr>))
         | Some sess \<Rightarrow> refreshAll sess s))"

section \<open>The accessors\<close>

text \<open>
  \<open>s.clients[role][region]\<close>: a missing role gives a nil inner map, and reading a nil
  map gives the zero value, so the result is a nil pointer (\<open>None\<close>) whenever the
  role or the region is not a key.
\<close>

definition lookupEntry :: "sessionCache \<Rightarrow> Role \<Rightarrow> string \<Rightarrow> clientCache option" where
  "lookupEntry s role region =
     (case fmlookup (clients s) role of None \<Rightarrow> None
                                      | Some regions \<Rightarrow> fmlookup regions region)"

text \<open>
  A write to a field through the pointer \<open>s.clients[role][region]\<close>, which is not nil:
  the entry at that key changes, nothing else does.
\<close>

definition updEntry ::
  "Role \<Rightarrow> string \<Rightarrow> (clientCache \<Rightarrow> clientCache) \<Rightarrow> sessionCache \<Rightarrow> sessionCache" where
  "updEntry role region f s =
     s\<lparr>clients :=
         fmmap_keys (\<lambda>r. fmmap_keys (\<lambda>rg e. if r = role \<and> rg = region then f e else e))
           (clients s)\<rparr>"

definition built :: "sessionCache \<Rightarrow> sessionCache" where
  "built s = s\<lparr>clientsBuilt := clientsBuilt s + 1\<rparr>"

text \<open>
  Each accessor returns the client and the cache after the call, or the panic.  The
  region is a \<open>*string\<close>: \<open>None\<close> is the nil pointer, which \<open>*region\<close> dereferences.
  For a key that is not in the map the assignment
  \<open>s.clients[role][*region].cloudwatch = ...\<close> writes through a nil pointer.  When
  the slot is empty the builder is called with \<open>s.session\<close>; no accessor creates the
  session, so before the first Refresh it is nil and the builder panics before
  anything is stored.
\<close>

definition GetSTS :: "Role \<Rightarrow> sessionCache \<Rightarrow> error + (Client \<times> sessionCache)" where
  "GetSTS role s =
     (case fmlookup (stscache s) role of
        Some (Some sess) \<Rightarrow> Inr (sess, s)
      | _ \<Rightarrow>
          (case session s of None \<Rightarrow> Inl NilPointerDereference
           | Some h \<Rightarrow>
               (let c = createStsSession h role (stsRegion s) (fips s)
                          (IsDebugEnabled (logger s))
                in Inr (c, built (s\<lparr>stscache := fmupd role (Some c) (stscache s)\<rparr>)))))"

definition GetCloudwatch ::
  "string option \<Rightarrow> Role \<Rightarrow> sessionCache \<Rightarrow> error + (Client \<times> sessionCache)" where
  "GetCloudwatch region role s =
     (case region of None \<Rightarrow> Inl NilPointerDereference
      | Some rg \<Rightarrow>
          (case lookupEntry s role rg of None \<Rightarrow> Inl NilPointerDereference
           | Some sess \<Rightarrow>
               (case cloudwatch sess of Some c \<Rightarrow> Inr (c, s)
                | None \<Rightarrow>
                    (case session s of None \<Rightarrow> Inl NilPointerDereference
                     | Some h \<Rightarrow>
                         (let c = createCloudwatchSession h rg role (fips s) (IsDebugEnabled (logger s))
                          in Inr (c, built (updEntry role rg
                                              (\<lambda>e. e\<lparr>cloudwatch := Some c\<rparr>) s)))))))"

definition GetTagging ::
  "string option \<Rightarrow> Role \<Rightarrow> sessionCache \<Rightarrow> error + (Client \<times> sessionCache)" where
  "GetTagging region role s =
     (case region of None \<Rightarrow> Inl NilPointerDereference
      | Some rg \<Rightarrow>
          (case lookupEntry s role rg of None \<Rightarrow> Inl NilPointerDereference
           | Some sess \<Rightarrow>
               (case tagging sess of Some c \<Rightarrow> Inr (c, s)
                | None \<Rightarrow>
                    (case session s of None \<Rightarrow> Inl NilPointerDereference
                     | Some h \<Rightarrow>
                         (let c = createTagSession h rg role (fips s)
                          in Inr (c, built (updEntry role rg
                                              (\<lambda>e. e\<lparr>tagging := Some c\<rparr>) s)))))))"

definition GetASG ::
  "string option \<Rightarrow> Role \<Rightarrow> sessionCache \<Rightarrow> error + (Client \<times> sessionCache)" where
  "GetASG region role s =
     (case region of None \<Rightarrow> Inl NilPointerDereference
      | Some rg \<Rightarrow>
          (case lookupEntry s role rg of None \<Rightarrow> Inl NilPointerDereference
           | Some sess \<Rightarrow>
               (case asg sess of Some c \<Rightarrow> Inr (c, s)
                | None \<Rightarrow>
                    (case session s of None \<Rightarrow> Inl NilPointerDereference
                     | Some h \<Rightarrow>
                         (let c = createASGSession h rg role (fips s)
                          in Inr (c, built (updEntry role rg
                                              (\<lambda>e. e\<lparr>asg := Some c\<rparr>) s)))))))"

definition GetEC2 ::
  "string option \<Rightarrow> Role \<Rightarrow> sessionCache \<Rightarrow> error + (Client \<times> sessionCache)" where
  "GetEC2 region role s =
     (case region of None \<Rightarrow> Inl NilPointerDereference
      | Some rg \<Rightarrow>
          (case lookupEntry s role rg of None \<Rightarrow> Inl NilPointerDereference
           | Some sess \<Rightarrow>
               (case ec2 sess of Some c \<Rightarrow> Inr (c, s)
                | None \<Rightarrow>
                    (case session s of None \<Rightarrow> Inl NilPointerDereference
                     | Some h \<Rightarrow>
                         (let c = createEC2Session h rg role (fips s) (IsDebugEnabled (logger s))
                          in Inr (c, built (updEntry role rg
                                              (\<lambda>e. e\<lparr>ec2 := Some c\<rparr>) s)))))))"

definition GetDMS ::
  "string option \<Rightarrow> Role \<Rightarrow> sessionCache \<Rightarrow> error + (Client \<times> sessionCache)" where
  "GetDMS region role s =
     (case region of None \<Rightarrow> Inl NilPointerDereference
      | Some rg \<Rightarrow>
          (case lookupEntry s role rg of None \<Rightarrow> Inl NilPointerDereference
           | Some sess \<Rightarrow>
               (case dms sess of Some c \<Rightarrow> Inr (c, s)
                | None \<Rightarrow>
                    (case session s of None \<Rightarrow> Inl NilPointerDereference
                     | Some h \<Rightarrow>
                         (let c = createDMSSession h rg role (fips s) (IsDebugEnabled (logger s))
                          in Inr (c, built (updEntry role rg
                                              (\<lambda>e. e\<lparr>dms := Some c\<rparr>) s)))))))"

definition GetAPIGateway ::
  "string option \<Rightarrow> Role \<Rightarrow> sessionCache \<Rightarrow> error + (Client \<times> sessionCache)" where
  "GetAPIGateway region role s =
     (case region of None \<Rightarrow> Inl NilPointerDereference
      | Some rg \<Rightarrow>
          (case lookupEntry s role rg of None \<Rightarrow> Inl NilPointerDereference
           | Some sess \<Rightarrow>
               (case apiGateway sess of Some c \<Rightarrow> Inr (c, s)
                | None \<Rightarrow>
                    (case session s of None \<Rightarrow> Inl NilPointerDereference
                     | Some h \<Rightarrow>
                         (let c = createAPIGatewaySession h rg role (fips s) (IsDebugEnabled (logger s))
                          in Inr (c, built (updEntry role rg
                                              (\<lambda>e. e\<lparr>apiGateway := Some c\<rparr>) s)))))))"

section \<open>Sequences of calls\<close>

datatype call =
  CallRefresh | CallClear | CallGetSTS Role
  | CallGetCloudwatch "string option" Role | CallGetTagging "string option" Role
  | CallGetASG "string option" Role | CallGetEC2 "string option" Role
  | CallGetDMS "string option" Role | CallGetAPIGateway "string option" Role

fun step :: "call \<Rightarrow> sessionCache \<Rightarrow> error + sessionCache" where
  "step CallRefresh s = Inr (Refresh s)"
| "step CallClear s = Inr (Clear s)"
| "step (CallGetSTS role) s = map_sum id snd (GetSTS role s)"
| "step (CallGetCloudwatch region role) s = map_sum id snd (GetCloudwatch region role s)"
| "step (CallGetTagging region role) s = map_sum id snd (GetTagging region role s)"
| "step (CallGetASG region role) s = map_sum id snd (GetASG region role s)"
| "step (CallGetEC2 region role) s = map_sum id snd (GetEC2 region role s)"
| "step (CallGetDMS region role) s = map_sum id snd (GetDMS region role s)"
| "step (CallGetAPIGateway region role) s = map_sum id snd (GetAPIGateway region role s)"

text \<open>A panic ends the run: the calls after it are never made.\<close>

fun run :: "call list \<Rightarrow> sessionCache \<Rightarrow> error + sessionCache" where
  "run [] s = Inr s"
| "run (c # cs) s = (case step c s of Inl e \<Rightarrow> Inl e | Inr s' \<Rightarrow> run cs s')"

section \<open>Predicates used in the statements\<close>

text \<open>What an accessor leaves alone: the phase flags, the session handle and the
  settings given at construction.\<close>

definition sameFrame :: "sessionCache \<Rightarrow> sessionCache \<Rightarrow> bool" where
  "sameFrame s s' \<longleftrightarrow>
     cleared s' = cleared s \<and> refreshed s' = refreshed s \<and> session s' = session s \<and>
     sessionsCreated s' = sessionsCreated s \<and> fips s' = fips s \<and> logger s' = logger s \<and>
     stsRegion s' = stsRegion s \<and> endpointResolver s' = endpointResolver s"

text \<open>The two phase flags are not both set.\<close>

definition phaseOk :: "sessionCache \<Rightarrow> bool" where
  "phaseOk s \<longleftrightarrow> \<not> (cleared s \<and> refreshed s)"

subsection \<open>The end-to-end scenario of the specification\<close>

text \<open>
  One discovery job with the role X in us-east-1 and one static job with the empty
  role in eu-west-1; compliance mode on, debug logging off, no endpoint override.
\<close>

definition roleX :: Role where
  "roleX = \<lparr>RoleArn = ''arn:aws:iam::123:role/X'', ExternalID = []\<rparr>"

definition roleAmbient :: Role where
  "roleAmbient = \<lparr>RoleArn = [], ExternalID = []\<rparr>"

definition scenarioConf :: ScrapeConf where
  "scenarioConf =
     \<lparr>StsRegion = [],
      DiscoveryJobs = [\<lparr>Roles = [roleX], Regions = [''us-east-1'']\<rparr>],
      Static = [\<lparr>Roles = [roleAmbient], Regions = [''eu-west-1'']\<rparr>]\<rparr>"

definition scenarioCache :: sessionCache where
  "scenarioCache = NewSessionCache scenarioConf True \<lparr>IsDebugEnabled = False\<rparr> []"

text \<open>The session that the first Refresh of the scenario creates.\<close>

definition scenarioSession :: Session where
  "scenarioSession = createAWSSession DefaultResolver False"

subsection \<open>The effect of one call on one entry\<close>

text \<open>The session handle after the first step of a Refresh that is not the no-op.\<close>

definition ensuredSession :: "sessionCache \<Rightarrow> Session" where
  "ensuredSession s =
     (case session s of
        None \<Rightarrow> createAWSSession (endpointResolver s) (IsDebugEnabled (logger s))
      | Some h \<Rightarrow> h)"

text \<open>
  What a call that returns makes of the entry \<open>e\<close> stored at the key \<open>(r, rg)\<close>;
  the lemma \<open>step_entry\<close> proves that \<open>step\<close> does exactly this to every entry.
  (An accessor that finds its slot empty returns only when the cache has a session.)
\<close>

fun entryAfter :: "call \<Rightarrow> sessionCache \<Rightarrow> Role \<Rightarrow> string \<Rightarrow> clientCache \<Rightarrow> clientCache" where
  "entryAfter CallRefresh s r rg e =
     (if refreshed s then e
      else refreshEntry (ensuredSession s) (fips s) (IsDebugEnabled (logger s)) r rg e)"
| "entryAfter CallClear s r rg e = (if cleared s then e else clearEntry e)"
| "entryAfter (CallGetSTS role) s r rg e = e"
| "entryAfter (CallGetCloudwatch region role) s r rg e =
     (if region = Some rg \<and> role = r \<and> cloudwatch e = None then
        (case session s of None \<Rightarrow> e
         | Some h \<Rightarrow>
             e\<lparr>cloudwatch := Some (createCloudwatchSession h rg r (fips s) (IsDebugEnabled (logger s)))\<rparr>)
      else e)"
| "entryAfter (CallGetTagging region role) s r rg e =
     (if region = Some rg \<and> role = r \<and> tagging e = None then
        (case session s of None \<Rightarrow> e
         | Some h \<Rightarrow>
             e\<lparr>tagging := Some (createTagSession h rg r (fips s))\<rparr>)
      else e)"
| "entryAfter (CallGetASG region role) s r rg e =
     (if region = Some rg \<and> role = r \<and> asg e = None then
        (case session s of None \<Rightarrow> e
         | Some h \<Rightarrow>
             e\<lparr>asg := Some (createASGSession h rg r (fips s))\<rparr>)
      else e)"
| "entryAfter (CallGetEC2 region role) s r rg e =
     (if region = Some rg \<and> role = r \<and> ec2 e = None then
        (case session s of None \<Rightarrow> e
         | Some h \<Rightarrow>
             e\<lparr>ec2 := Some (createEC2Session h rg r (fips s) (IsDebugEnabled (logger s)))\<rparr>)
      else e)"
| "entryAfter (CallGetDMS region role) s r rg e =
     (if region = Some rg \<and> role = r \<and> dms e = None then
        (case session s of None \<Rightarrow> e
         | Some h \<Rightarrow>
             e\<lparr>dms := Some (createDMSSession h rg r (fips s) (IsDebugEnabled (logger s)))\<rparr>)
      else e)"
| "entryAfter (CallGetAPIGateway region role) s r rg e =
     (if region = Some rg \<and> role = r \<and> apiGateway e = None then
        (case session s of None \<Rightarrow> e
         | Some h \<Rightarrow>
             e\<lparr>apiGateway := Some (createAPIGatewaySession h rg r (fips s) (IsDebugEnabled (logger s)))\<rparr>)
      else e)"

subsection \<open>The sets a job topology stands for\<close>

text \<open>The roles named by some job, and the pairs of a role and a region of one job.\<close>

definition rolesOf :: "Job list \<Rightarrow> Role set" where
  "rolesOf jobs = (\<Union>job \<in> set jobs. set (Roles job))"

definition pairsOf :: "Job list \<Rightarrow> (Role \<times> string) set" where
  "pairsOf jobs = (\<Union>job \<in> set jobs. set (Roles job) \<times> set (Regions job))"

text \<open>\<open>lookupEntry\<close> on a client map that is not yet inside a cache.\<close>

definition entryOf ::
  "(Role, (string, clientCache) fmap) fmap \<Rightarrow> Role \<Rightarrow> string \<Rightarrow> clientCache option" where
  "entryOf m role region =
     (case fmlookup m role of None \<Rightarrow> None | Some regions \<Rightarrow> fmlookup regions region)"

text \<open>
  What the discovery loop and the static loop make of the entry of a pair, given
  whether the pair occurs in the jobs of the loop.
\<close>

definition mergeDiscovery :: "clientCache option \<Rightarrow> bool \<Rightarrow> clientCache option" where
  "mergeDiscovery old b = (if b then Some (newClientCache False) else old)"

definition mergeStatic :: "clientCache option \<Rightarrow> bool \<Rightarrow> clientCache option" where
  "mergeStatic old b =
     (case old of Some e \<Rightarrow> Some e
      | None \<Rightarrow> if b then Some (newClientCache True) else None)"

text \<open>The identity slots are all empty after construction.\<close>

definition stsAllEmpty :: "(Role, Client option) fmap \<Rightarrow> bool" where
  "stsAllEmpty m \<longleftrightarrow> (\<forall>r v. fmlookup m r = Some v \<longrightarrow> v = None)"

subsection \<open>Further configurations\<close>

text \<open>
  A static job with a role and no region, the configuration without jobs, and two
  configurations listing the same roles and pairs in different jobs and orders.
\<close>

definition noRegionConf :: ScrapeConf where
  "noRegionConf =
     \<lparr>StsRegion = [], DiscoveryJobs = [],
      Static = [\<lparr>Roles = [roleAmbient], Regions = []\<rparr>]\<rparr>"

definition emptyConf :: ScrapeConf where
  "emptyConf = \<lparr>StsRegion = [], DiscoveryJobs = [], Static = []\<rparr>"

definition shuffledConfA :: ScrapeConf where
  "shuffledConfA =
     \<lparr>StsRegion = [],
      DiscoveryJobs = [\<lparr>Roles = [roleX], Regions = [''us-east-1'']\<rparr>,
                       \<lparr>Roles = [roleAmbient], Regions = [''eu-west-1'']\<rparr>],
      Static = [\<lparr>Roles = [roleAmbient], Regions = [''eu-west-1'', ''us-west-2'']\<rparr>]\<rparr>"

definition shuffledConfB :: ScrapeConf where
  "shuffledConfB =
     \<lparr>StsRegion = [],
      DiscoveryJobs = [\<lparr>Roles = [roleAmbient], Regions = [''eu-west-1'']\<rparr>,
                       \<lparr>Roles = [roleX], Regions = [''us-east-1'']\<rparr>],
      Static = [\<lparr>Roles = [roleAmbient], Regions = [''us-west-2'']\<rparr>,
                \<lparr>Roles = [roleAmbient], Regions = [''eu-west-1'']\<rparr>]\<rparr>"

subsection \<open>Invariants\<close>






text \<open>A slot that is empty or holds a client without an endpoint override.\<close>

definition defaultEndpoint :: "Client option \<Rightarrow> bool" where
  "defaultEndpoint slot = (case slot of None \<Rightarrow> True | Some c \<Rightarrow> Endpoint (clientConfig c) = None)"

text \<open>Neither the tagging nor the autoscaling slot of the entry has an override.\<close>

definition noOverride :: "clientCache \<Rightarrow> bool" where
  "noOverride e \<longleftrightarrow> defaultEndpoint (tagging e) \<and> defaultEndpoint (asg e)"

text \<open>
  The credentials a client built for \<open>role\<close> on the session \<open>h\<close> must have: none of
  its own when the role has no ARN (the ambient credentials of the session are used),
  else an assume-role provider on \<open>h\<close> for that ARN, with the external ID when the
  role has one.
\<close>

definition assumeRole :: "Session \<Rightarrow> Role \<Rightarrow> AssumeRoleProvider option" where
  "assumeRole h role =
     (if RoleArn role = [] then None
      else Some \<lparr>providerSession = h, providerRoleArn = RoleArn role,
                 providerExternalID =
                   (if ExternalID role = [] then None else Some (ExternalID role))\<rparr>)"

text \<open>
  What a lazy build of a region-keyed accessor did: the client \<open>c\<close> was built on the
  cache's session handle with the credentials the role asks for, the entry of the key
  became \<open>e'\<close>, one builder call was counted, and nothing else changed.
\<close>

definition lazyBuilt ::
  "sessionCache \<Rightarrow> Role \<Rightarrow> string \<Rightarrow> Client \<Rightarrow> clientCache \<Rightarrow> sessionCache \<Rightarrow> bool" where
  "lazyBuilt s role rg c e' s' \<longleftrightarrow>
     session s = Some (clientSession c) \<and>
     Credentials (clientConfig c) = assumeRole (clientSession c) role \<and>
     Region (clientConfig c) = Some rg \<and>
     lookupEntry s' role rg = Some e' \<and>
     (\<forall>r' rg'. (r', rg') \<noteq> (role, rg) \<longrightarrow> lookupEntry s' r' rg' = lookupEntry s r' rg') \<and>
     fmdom' (clients s') = fmdom' (clients s) \<and>
     stscache s' = stscache s \<and>
     clientsBuilt s' = clientsBuilt s + 1 \<and>
     sameFrame s s'"

text \<open>A role that no job of the scenario names.\<close>

definition roleUndeclared :: Role where
  "roleUndeclared = \<lparr>RoleArn = ''arn:aws:iam::123:role/Y'', ExternalID = []\<rparr>"

text \<open>
  The session handle and its counter agree: no handle and no creation, or a handle
  and one creation.
\<close>

definition sessionOnce :: "sessionCache \<Rightarrow> bool" where
  "sessionOnce s \<longleftrightarrow> (case session s of None \<Rightarrow> sessionsCreated s = 0
                                         | Some h \<Rightarrow> sessionsCreated s = 1)"

section \<open>Lookups and frames\<close>

lemma lookupEntry_updEntry:
  "lookupEntry (updEntry role rg f s) r' rg' =
     map_option (\<lambda>e. if r' = role \<and> rg' = rg then f e else e) (lookupEntry s r' rg')"
  by (simp add: lookupEntry_def updEntry_def split: option.splits)

lemma lookupEntry_built: "lookupEntry (built s) r rg = lookupEntry s r rg"
  by (simp add: lookupEntry_def built_def)

lemma lookupEntry_stscache_update:
  "lookupEntry (s\<lparr>stscache := m\<rparr>) r rg = lookupEntry s r rg"
  by (simp add: lookupEntry_def)

lemma lookupEntry_Clear:
  "lookupEntry (Clear s) r rg =
     (if cleared s then lookupEntry s r rg else map_option clearEntry (lookupEntry s r rg))"
  by (simp add: lookupEntry_def Clear_def split: option.splits)

lemma lookupEntry_refreshAll:
  "lookupEntry (refreshAll sess s) r rg =
     map_option (refreshEntry sess (fips s) (IsDebugEnabled (logger s)) r rg) (lookupEntry s r rg)"
  by (simp add: lookupEntry_def refreshAll_def Let_def split: option.splits)

lemma refreshAll_fields:
  "refreshed (refreshAll sess s)" "\<not> cleared (refreshAll sess s)"
  "session (refreshAll sess s) = session s"
  "sessionsCreated (refreshAll sess s) = sessionsCreated s"
  "fips (refreshAll sess s) = fips s" "logger (refreshAll sess s) = logger s"
  "fmdom' (stscache (refreshAll sess s)) = fmdom' (stscache s)"
  "fmdom' (clients (refreshAll sess s)) = fmdom' (clients s)"
  by (simp_all add: refreshAll_def Let_def fmdom'_alt_def)

lemma Refresh_fresh:
  "\<not> refreshed s \<Longrightarrow>
   Refresh s =
     refreshAll (ensuredSession s)
       (s\<lparr>session := Some (ensuredSession s),
          sessionsCreated := (if session s = None then sessionsCreated s + 1
                              else sessionsCreated s)\<rparr>)"
proof (cases "session s")
  case None
  assume "\<not> refreshed s"
  with None show ?thesis by (simp add: Refresh_def Let_def ensuredSession_def)
next
  case (Some h)
  assume fresh: "\<not> refreshed s"
  from Some have eq: "s\<lparr>session := Some h\<rparr> = s" by (cases s) simp
  from fresh Some show ?thesis by (simp add: Refresh_def ensuredSession_def eq)
qed

lemma lookupEntry_Refresh:
  "lookupEntry (Refresh s) r rg =
     (if refreshed s then lookupEntry s r rg
      else map_option
             (refreshEntry (ensuredSession s) (fips s) (IsDebugEnabled (logger s)) r rg)
             (lookupEntry s r rg))"
proof (cases "refreshed s")
  case True
  then show ?thesis by (simp add: Refresh_def)
next
  case False
  then show ?thesis
    by (simp add: Refresh_fresh lookupEntry_refreshAll) (simp add: lookupEntry_def)
qed

lemma refreshed_Refresh: "refreshed (Refresh s)"
  by (cases "refreshed s") (simp_all add: Refresh_fresh refreshAll_fields, simp add: Refresh_def)

lemma cleared_Refresh: "\<not> refreshed s \<Longrightarrow> \<not> cleared (Refresh s)"
  by (simp add: Refresh_fresh refreshAll_fields)

lemma Refresh_session:
  "session (Refresh s) = (if refreshed s then session s else Some (ensuredSession s))"
  "sessionsCreated (Refresh s) =
     (if refreshed s \<or> session s \<noteq> None then sessionsCreated s else sessionsCreated s + 1)"
proof -
  show "session (Refresh s) = (if refreshed s then session s else Some (ensuredSession s))"
  proof (cases "refreshed s")
    case True
    then show ?thesis by (simp add: Refresh_def)
  next
    case False
    then show ?thesis by (simp add: Refresh_fresh refreshAll_fields)
  qed
  show "sessionsCreated (Refresh s) =
     (if refreshed s \<or> session s \<noteq> None then sessionsCreated s else sessionsCreated s + 1)"
  proof (cases "refreshed s")
    case True
    then show ?thesis by (simp add: Refresh_def)
  next
    case False
    then show ?thesis by (simp add: Refresh_fresh refreshAll_fields)
  qed
qed

lemma Refresh_settings:
  "fips (Refresh s) = fips s" "logger (Refresh s) = logger s"
proof -
  show "fips (Refresh s) = fips s"
  proof (cases "refreshed s")
    case True
    then show ?thesis by (simp add: Refresh_def)
  next
    case False
    then show ?thesis by (simp add: Refresh_fresh refreshAll_fields)
  qed
  show "logger (Refresh s) = logger s"
  proof (cases "refreshed s")
    case True
    then show ?thesis by (simp add: Refresh_def)
  next
    case False
    then show ?thesis by (simp add: Refresh_fresh refreshAll_fields)
  qed
qed

lemma Refresh_refreshed: "refreshed s \<Longrightarrow> Refresh s = s"
  by (simp add: Refresh_def)

lemma cleared_Clear: "cleared (Clear s)"
  by (simp add: Clear_def)

lemma refreshed_Clear: "\<not> cleared s \<Longrightarrow> \<not> refreshed (Clear s)"
  by (simp add: Clear_def)

lemma Clear_cleared: "cleared s \<Longrightarrow> Clear s = s"
  by (simp add: Clear_def)

lemma sameFrame_refl: "sameFrame s s" by (simp add: sameFrame_def)

lemma sameFrame_built_updEntry: "sameFrame s (built (updEntry role rg f s))"
  by (simp add: sameFrame_def built_def updEntry_def)

lemma GetSTS_frame: "GetSTS role s = Inr (c, s') \<Longrightarrow> sameFrame s s'"
  by (auto simp: GetSTS_def sameFrame_def built_def Let_def split: option.splits)

lemma GetCloudwatch_frame: "GetCloudwatch region role s = Inr (c, s') \<Longrightarrow> sameFrame s s'"
  by (auto simp: GetCloudwatch_def sameFrame_refl sameFrame_built_updEntry Let_def split: option.splits)
lemma GetTagging_frame: "GetTagging region role s = Inr (c, s') \<Longrightarrow> sameFrame s s'"
  by (auto simp: GetTagging_def sameFrame_refl sameFrame_built_updEntry Let_def split: option.splits)
lemma GetASG_frame: "GetASG region role s = Inr (c, s') \<Longrightarrow> sameFrame s s'"
  by (auto simp: GetASG_def sameFrame_refl sameFrame_built_updEntry Let_def split: option.splits)
lemma GetEC2_frame: "GetEC2 region role s = Inr (c, s') \<Longrightarrow> sameFrame s s'"
  by (auto simp: GetEC2_def sameFrame_refl sameFrame_built_updEntry Let_def split: option.splits)
lemma GetDMS_frame: "GetDMS region role s = Inr (c, s') \<Longrightarrow> sameFrame s s'"
  by (auto simp: GetDMS_def sameFrame_refl sameFrame_built_updEntry Let_def split: option.splits)
lemma GetAPIGateway_frame: "GetAPIGateway region role s = Inr (c, s') \<Longrightarrow> sameFrame s s'"
  by (auto simp: GetAPIGateway_def sameFrame_refl sameFrame_built_updEntry Let_def split: option.splits)

lemmas Get_frames = GetSTS_frame GetCloudwatch_frame GetTagging_frame GetASG_frame
  GetEC2_frame GetDMS_frame GetAPIGateway_frame

lemma map_sum_snd_Inr: "map_sum id snd x = Inr s' \<Longrightarrow> \<exists>c. x = Inr (c, s')"
  by (cases x) auto

lemma step_accessor_frame:
  "step c s = Inr s' \<Longrightarrow> c \<noteq> CallRefresh \<Longrightarrow> c \<noteq> CallClear \<Longrightarrow> sameFrame s s'"
  by (cases c) (auto dest!: map_sum_snd_Inr dest: Get_frames)

section \<open>The phase flags\<close>

lemma phaseOk_Refresh: "phaseOk s \<Longrightarrow> phaseOk (Refresh s)"
  by (cases "refreshed s") (simp_all add: phaseOk_def Refresh_refreshed cleared_Refresh)

lemma phaseOk_Clear: "phaseOk s \<Longrightarrow> phaseOk (Clear s)"
  by (auto simp: phaseOk_def Clear_def)

lemma phaseOk_step: "phaseOk s \<Longrightarrow> step c s = Inr s' \<Longrightarrow> phaseOk s'"
proof (cases "c = CallRefresh \<or> c = CallClear")
  case True
  assume "phaseOk s" "step c s = Inr s'"
  with True show ?thesis by (auto simp: phaseOk_Refresh phaseOk_Clear)
next
  case False
  assume "phaseOk s" "step c s = Inr s'"
  with False have "sameFrame s s'" by (simp add: step_accessor_frame)
  with \<open>phaseOk s\<close> show ?thesis by (simp add: phaseOk_def sameFrame_def)
qed

lemma phaseOk_run: "phaseOk s \<Longrightarrow> run calls s = Inr s' \<Longrightarrow> phaseOk s'"
proof (induction calls arbitrary: s)
  case Nil
  then show ?case by simp
next
  case (Cons c cs)
  then show ?case by (auto split: sum.splits dest: phaseOk_step)
qed

lemma phaseOk_New: "phaseOk (NewSessionCache config f lg url)"
  by (simp add: phaseOk_def NewSessionCache_def)

text \<open>
  C8.  Construction leaves both phase flags false.  In every state reached from a
  constructed cache by Refresh, Clear and accessor calls the flags \<open>cleared\<close> and
  \<open>refreshed\<close> are not both true; a Refresh from such a state ends with
  \<open>refreshed\<close> true and \<open>cleared\<close> false, a Clear with \<open>cleared\<close> true and
  \<open>refreshed\<close> false.
\<close>

theorem phase_flags_exclusive:
  "\<not> cleared (NewSessionCache config f lg url) \<and>
   \<not> refreshed (NewSessionCache config f lg url) \<and>
   (run calls (NewSessionCache config f lg url) = Inr s \<longrightarrow>
      \<not> (cleared s \<and> refreshed s) \<and>
      refreshed (Refresh s) \<and> \<not> cleared (Refresh s) \<and>
      cleared (Clear s) \<and> \<not> refreshed (Clear s))"
proof -
  have new: "\<not> cleared (NewSessionCache config f lg url)"
            "\<not> refreshed (NewSessionCache config f lg url)"
    by (simp_all add: NewSessionCache_def)
  have "run calls (NewSessionCache config f lg url) = Inr s \<Longrightarrow> ?thesis"
  proof -
    assume "run calls (NewSessionCache config f lg url) = Inr s"
    then have ok: "phaseOk s" using phaseOk_New phaseOk_run by blast
    from phaseOk_Refresh [OF ok] phaseOk_Clear [OF ok] ok new show ?thesis
      by (auto simp: phaseOk_def refreshed_Refresh cleared_Clear)
  qed
  with new show ?thesis by blast
qed

theorem phase_flags_exclusive_witness:
  "run [CallRefresh, CallClear] scenarioCache = Inr (Clear (Refresh scenarioCache)) \<and>
   \<not> (cleared (Clear (Refresh scenarioCache)) \<and> refreshed (Clear (Refresh scenarioCache))) \<and>
   refreshed (Refresh (Clear (Refresh scenarioCache)))"
  using phase_flags_exclusive [of scenarioConf True "\<lparr>IsDebugEnabled = False\<rparr>" "[]"
      "[CallRefresh, CallClear]" "Clear (Refresh scenarioCache)"]
  by (simp add: scenarioCache_def)

text \<open>
  C6.  A Refresh of a cache whose \<open>refreshed\<close> flag is set returns the cache as it
  is: no builder is called (the two counters are part of the state) and nothing
  changes.  Hence the second of two consecutive Refresh calls changes nothing and
  builds nothing, from every state.
\<close>

theorem Refresh_noop:
  "(refreshed s \<longrightarrow> Refresh s = s) \<and>
   Refresh (Refresh s) = Refresh s \<and>
   clientsBuilt (Refresh (Refresh s)) = clientsBuilt (Refresh s) \<and>
   sessionsCreated (Refresh (Refresh s)) = sessionsCreated (Refresh s)"
  by (simp add: Refresh_refreshed refreshed_Refresh)

theorem Refresh_noop_witness:
  "refreshed (Refresh scenarioCache) \<and> Refresh (Refresh scenarioCache) = Refresh scenarioCache"
  using Refresh_noop [of "Refresh scenarioCache"]
  by (simp add: refreshed_Refresh)

section \<open>One call, one entry\<close>

lemma GetCloudwatch_entry:
  assumes "GetCloudwatch region role s = Inr (c, s')"
  shows "lookupEntry s' r rg =
           map_option (entryAfter (CallGetCloudwatch region role) s r rg) (lookupEntry s r rg)"
  using assms
  by (cases "lookupEntry s r rg")
     (auto simp: GetCloudwatch_def Let_def lookupEntry_built lookupEntry_updEntry split: option.splits)

lemma GetTagging_entry:
  assumes "GetTagging region role s = Inr (c, s')"
  shows "lookupEntry s' r rg =
           map_option (entryAfter (CallGetTagging region role) s r rg) (lookupEntry s r rg)"
  using assms
  by (cases "lookupEntry s r rg")
     (auto simp: GetTagging_def Let_def lookupEntry_built lookupEntry_updEntry split: option.splits)

lemma GetASG_entry:
  assumes "GetASG region role s = Inr (c, s')"
  shows "lookupEntry s' r rg =
           map_option (entryAfter (CallGetASG region role) s r rg) (lookupEntry s r rg)"
  using assms
  by (cases "lookupEntry s r rg")
     (auto simp: GetASG_def Let_def lookupEntry_built lookupEntry_updEntry split: option.splits)

lemma GetEC2_entry:
  assumes "GetEC2 region role s = Inr (c, s')"
  shows "lookupEntry s' r rg =
           map_option (entryAfter (CallGetEC2 region role) s r rg) (lookupEntry s r rg)"
  using assms
  by (cases "lookupEntry s r rg")
     (auto simp: GetEC2_def Let_def lookupEntry_built lookupEntry_updEntry split: option.splits)

lemma GetDMS_entry:
  assumes "GetDMS region role s = Inr (c, s')"
  shows "lookupEntry s' r rg =
           map_option (entryAfter (CallGetDMS region role) s r rg) (lookupEntry s r rg)"
  using assms
  by (cases "lookupEntry s r rg")
     (auto simp: GetDMS_def Let_def lookupEntry_built lookupEntry_updEntry split: option.splits)

lemma GetAPIGateway_entry:
  assumes "GetAPIGateway region role s = Inr (c, s')"
  shows "lookupEntry s' r rg =
           map_option (entryAfter (CallGetAPIGateway region role) s r rg) (lookupEntry s r rg)"
  using assms
  by (cases "lookupEntry s r rg")
     (auto simp: GetAPIGateway_def Let_def lookupEntry_built lookupEntry_updEntry split: option.splits)

lemma GetSTS_entry:
  assumes "GetSTS role s = Inr (c, s')"
  shows "lookupEntry s' r rg = lookupEntry s r rg"
  using assms
  by (auto simp: GetSTS_def Let_def lookupEntry_built lookupEntry_stscache_update
           split: option.splits)

lemma step_entry:
  assumes "step c s = Inr s'"
  shows "lookupEntry s' r rg = map_option (entryAfter c s r rg) (lookupEntry s r rg)"
proof (cases c)
  case CallRefresh
  with assms show ?thesis
    by (cases "lookupEntry s r rg") (auto simp: lookupEntry_Refresh)
next
  case CallClear
  with assms show ?thesis by (cases "lookupEntry s r rg") (auto simp: lookupEntry_Clear)
next
  case (CallGetSTS role)
  with assms show ?thesis
    by (cases "lookupEntry s r rg") (auto dest!: map_sum_snd_Inr simp: GetSTS_entry)
next
  case (CallGetCloudwatch region role)
  with assms show ?thesis by (auto dest!: map_sum_snd_Inr simp: GetCloudwatch_entry)
next
  case (CallGetTagging region role)
  with assms show ?thesis by (auto dest!: map_sum_snd_Inr simp: GetTagging_entry)
next
  case (CallGetASG region role)
  with assms show ?thesis by (auto dest!: map_sum_snd_Inr simp: GetASG_entry)
next
  case (CallGetEC2 region role)
  with assms show ?thesis by (auto dest!: map_sum_snd_Inr simp: GetEC2_entry)
next
  case (CallGetDMS region role)
  with assms show ?thesis by (auto dest!: map_sum_snd_Inr simp: GetDMS_entry)
next
  case (CallGetAPIGateway region role)
  with assms show ?thesis by (auto dest!: map_sum_snd_Inr simp: GetAPIGateway_entry)
qed

section \<open>The Topology Builder\<close>

lemma lookupEntry_entryOf: "lookupEntry s r rg = entryOf (clients s) r rg"
  by (simp add: lookupEntry_def entryOf_def)

lemma foldl_discoveryRegion:
  "fmlookup (foldl discoveryRegion m regions) rg = mergeDiscovery (fmlookup m rg) (rg \<in> set regions)"
  by (induction regions arbitrary: m) (auto simp: discoveryRegion_def mergeDiscovery_def)

lemma foldl_staticRegion:
  "fmlookup (foldl staticRegion m regions) rg = mergeStatic (fmlookup m rg) (rg \<in> set regions)"
  by (induction regions arbitrary: m)
     (auto simp: staticRegion_def mergeStatic_def split: option.splits)

lemma mergeDiscovery_laws:
  "mergeDiscovery old False = old"
  "mergeDiscovery (mergeDiscovery old a) b = mergeDiscovery old (a \<or> b)"
  by (auto simp: mergeDiscovery_def)

lemma mergeStatic_laws:
  "mergeStatic old False = old"
  "mergeStatic (mergeStatic old a) b = mergeStatic old (a \<or> b)"
  by (auto simp: mergeStatic_def split: option.splits)

lemma roleStep_entry:
  assumes st: "\<And>m rg. fmlookup (foldl st m regions) rg = F (fmlookup m rg) (rg \<in> set regions)"
    and F0: "\<And>old. F old False = old"
  shows "entryOf (snd (roleStep st regions c role)) r rg =
           F (entryOf (snd c) r rg) (r = role \<and> rg \<in> set regions)"
  by (auto simp: roleStep_def entryOf_def Let_def st F0 split: option.splits)

lemma rolesLoop_entry:
  assumes st: "\<And>m rg. fmlookup (foldl st m regions) rg = F (fmlookup m rg) (rg \<in> set regions)"
    and F0: "\<And>old. F old False = old"
    and Fc: "\<And>old a b. F (F old a) b = F old (a \<or> b)"
  shows "entryOf (snd (foldl (roleStep st regions) c roles)) r rg =
           F (entryOf (snd c) r rg) (r \<in> set roles \<and> rg \<in> set regions)"
proof (induction roles arbitrary: c)
  case Nil
  show ?case by (simp add: F0)
next
  case (Cons role roles)
  have "(r = role \<and> rg \<in> set regions \<or> r \<in> set roles \<and> rg \<in> set regions)
          = (r \<in> set (role # roles) \<and> rg \<in> set regions)"
    by auto
  then show ?case
    by (simp add: Cons.IH roleStep_entry [of st regions F, OF st F0] Fc del: set_simps)
qed

lemma jobsLoop_entry:
  assumes st: "\<And>m regions rg.
                 fmlookup (foldl st m regions) rg = F (fmlookup m rg) (rg \<in> set regions)"
    and F0: "\<And>old. F old False = old"
    and Fc: "\<And>old a b. F (F old a) b = F old (a \<or> b)"
  shows "entryOf (snd (jobsLoop st c jobs)) r rg =
           F (entryOf (snd c) r rg) ((r, rg) \<in> pairsOf jobs)"
proof (induction jobs arbitrary: c)
  case Nil
  show ?case by (simp add: jobsLoop_def pairsOf_def F0)
next
  case (Cons job jobs)
  have unfold: "jobsLoop st c (job # jobs) =
                  jobsLoop st (foldl (roleStep st (Regions job)) c (Roles job)) jobs"
    by (simp add: jobsLoop_def)
  have split: "((r \<in> set (Roles job) \<and> rg \<in> set (Regions job)) \<or> (r, rg) \<in> pairsOf jobs)
                 = ((r, rg) \<in> pairsOf (job # jobs))"
    by (auto simp: pairsOf_def)
  show ?case
    unfolding unfold Cons.IH
    by (simp only: rolesLoop_entry [of st _ F, OF st F0 Fc] Fc split)
qed

lemma roleStep_keys:
  "fmdom' (fst (roleStep st regions c role)) = insert role (fmdom' (fst c))"
  "fmdom' (snd (roleStep st regions c role)) = insert role (fmdom' (snd c))"
  by (auto simp: roleStep_def Let_def fmlookup_dom'_iff split: option.splits)

lemma rolesLoop_keys:
  "fmdom' (fst (foldl (roleStep st regions) c roles)) = fmdom' (fst c) \<union> set roles"
  "fmdom' (snd (foldl (roleStep st regions) c roles)) = fmdom' (snd c) \<union> set roles"
  by (induction roles arbitrary: c) (simp_all add: roleStep_keys)

lemma jobsLoop_keys:
  "fmdom' (fst (jobsLoop st c jobs)) = fmdom' (fst c) \<union> rolesOf jobs"
  "fmdom' (snd (jobsLoop st c jobs)) = fmdom' (snd c) \<union> rolesOf jobs"
  by (induction jobs arbitrary: c)
     (auto simp: jobsLoop_def rolesOf_def rolesLoop_keys)

lemma roleStep_stsAllEmpty:
  "stsAllEmpty (fst c) \<Longrightarrow> stsAllEmpty (fst (roleStep st regions c role))"
  by (auto simp: roleStep_def Let_def stsAllEmpty_def split: option.splits if_splits)

lemma rolesLoop_stsAllEmpty:
  "stsAllEmpty (fst c) \<Longrightarrow> stsAllEmpty (fst (foldl (roleStep st regions) c roles))"
  by (induction roles arbitrary: c) (simp_all add: roleStep_stsAllEmpty)

lemma jobsLoop_stsAllEmpty:
  "stsAllEmpty (fst c) \<Longrightarrow> stsAllEmpty (fst (jobsLoop st c jobs))"
  by (induction jobs arbitrary: c) (simp_all add: jobsLoop_def rolesLoop_stsAllEmpty)

lemma buildCaches_keys:
  "fmdom' (fst (buildCaches config)) = rolesOf (DiscoveryJobs config) \<union> rolesOf (Static config)"
  "fmdom' (snd (buildCaches config)) = rolesOf (DiscoveryJobs config) \<union> rolesOf (Static config)"
  by (simp_all add: buildCaches_def jobsLoop_keys)

lemma buildCaches_sts:
  "fmlookup (fst (buildCaches config)) r =
     (if r \<in> rolesOf (DiscoveryJobs config) \<union> rolesOf (Static config) then Some None else None)"
proof -
  have "stsAllEmpty (fst (buildCaches config))"
    unfolding buildCaches_def
    by (intro jobsLoop_stsAllEmpty) (simp add: stsAllEmpty_def)
  moreover have "(fmlookup (fst (buildCaches config)) r \<noteq> None) =
                   (r \<in> rolesOf (DiscoveryJobs config) \<union> rolesOf (Static config))"
    using buildCaches_keys(1) [of config, symmetric]
    by (simp only: fmlookup_dom'_iff) auto
  ultimately show ?thesis
    by (cases "fmlookup (fst (buildCaches config)) r") (auto simp: stsAllEmpty_def)
qed

lemma buildCaches_entry:
  "entryOf (snd (buildCaches config)) r rg =
     (if (r, rg) \<in> pairsOf (DiscoveryJobs config) then Some (newClientCache False)
      else if (r, rg) \<in> pairsOf (Static config) then Some (newClientCache True)
      else None)"
proof -
  have S: "\<And>c jobs. entryOf (snd (jobsLoop staticRegion c jobs)) r rg =
                mergeStatic (entryOf (snd c) r rg) ((r, rg) \<in> pairsOf jobs)"
    by (rule jobsLoop_entry [OF foldl_staticRegion mergeStatic_laws])
  have D: "\<And>c jobs. entryOf (snd (jobsLoop discoveryRegion c jobs)) r rg =
                mergeDiscovery (entryOf (snd c) r rg) ((r, rg) \<in> pairsOf jobs)"
    by (rule jobsLoop_entry [OF foldl_discoveryRegion mergeDiscovery_laws])
  have E: "entryOf (snd (fmempty, fmempty)) r rg = None"
    by (simp add: entryOf_def)
  have "entryOf (snd (buildCaches config)) r rg =
          mergeStatic (mergeDiscovery None ((r, rg) \<in> pairsOf (DiscoveryJobs config)))
                      ((r, rg) \<in> pairsOf (Static config))"
    unfolding buildCaches_def by (simp only: S D E)
  then show ?thesis by (simp add: mergeStatic_def mergeDiscovery_def)
qed

lemma clients_eqI:
  assumes "fmdom' A = fmdom' B" and "\<And>r rg. entryOf A r rg = entryOf B r rg"
  shows "A = B"
proof (rule fmap_ext)
  fix r
  show "fmlookup A r = fmlookup B r"
  proof (cases "fmlookup A r")
    case None
    then have "r \<notin> fmdom' A" by (rule fmdom'_notI)
    then have "r \<notin> fmdom' B" using assms(1) by simp
    with None show ?thesis by (simp add: fmdom'_notD)
  next
    case (Some m)
    then have "r \<in> fmdom' B" using assms(1) by (auto simp: fmlookup_dom'_iff)
    then obtain m' where m': "fmlookup B r = Some m'" by (auto simp: fmlookup_dom'_iff)
    have "m = m'"
    proof (rule fmap_ext)
      fix rg
      show "fmlookup m rg = fmlookup m' rg"
        using assms(2) [of r rg] Some m' by (simp add: entryOf_def)
    qed
    with Some m' show ?thesis by simp
  qed
qed

lemma New_role_keys:
  "fmdom' (stscache (NewSessionCache config f lg url)) =
     rolesOf (DiscoveryJobs config) \<union> rolesOf (Static config)"
  "fmdom' (clients (NewSessionCache config f lg url)) =
     rolesOf (DiscoveryJobs config) \<union> rolesOf (Static config)"
  by (simp_all add: NewSessionCache_def buildCaches_keys)

lemma New_sts:
  "fmlookup (stscache (NewSessionCache config f lg url)) r =
     (if r \<in> rolesOf (DiscoveryJobs config) \<union> rolesOf (Static config) then Some None else None)"
  by (simp add: NewSessionCache_def buildCaches_sts)

lemma New_lookupEntry:
  "lookupEntry (NewSessionCache config f lg url) r rg =
     (if (r, rg) \<in> pairsOf (DiscoveryJobs config) then Some (newClientCache False)
      else if (r, rg) \<in> pairsOf (Static config) then Some (newClientCache True)
      else None)"
  by (simp add: lookupEntry_entryOf NewSessionCache_def buildCaches_entry)

text \<open>
  C9, as amended.  The key space is a function of three sets: the roles named by the
  jobs, the pairs of the discovery jobs and the pairs of all jobs.  Two
  configurations that agree on these sets (in particular, two that list the same
  jobs in another order) give the same identity map and the same client map.  The
  role keys are the roles named by any job (a role of a job without regions has a
  key too); a pair of a discovery job has an entry that is not static-only, a pair
  of static jobs only has a static-only entry, and no other pair has an entry.
\<close>

theorem topology_depends_on_sets:
  assumes "rolesOf (DiscoveryJobs c1) \<union> rolesOf (Static c1) =
           rolesOf (DiscoveryJobs c2) \<union> rolesOf (Static c2)"
    and "pairsOf (DiscoveryJobs c1) = pairsOf (DiscoveryJobs c2)"
    and "pairsOf (DiscoveryJobs c1) \<union> pairsOf (Static c1) =
         pairsOf (DiscoveryJobs c2) \<union> pairsOf (Static c2)"
  shows "stscache (NewSessionCache c1 f lg url) = stscache (NewSessionCache c2 f lg url) \<and>
         clients (NewSessionCache c1 f lg url) = clients (NewSessionCache c2 f lg url) \<and>
         fmdom' (stscache (NewSessionCache c1 f lg url)) =
           rolesOf (DiscoveryJobs c1) \<union> rolesOf (Static c1) \<and>
         fmdom' (clients (NewSessionCache c1 f lg url)) =
           rolesOf (DiscoveryJobs c1) \<union> rolesOf (Static c1) \<and>
         lookupEntry (NewSessionCache c1 f lg url) r rg =
           (if (r, rg) \<in> pairsOf (DiscoveryJobs c1) then Some (newClientCache False)
            else if (r, rg) \<in> pairsOf (Static c1) then Some (newClientCache True)
            else None) \<and>
         onlyStatic (newClientCache False) = False \<and> onlyStatic (newClientCache True) = True"
proof -
  have sts: "stscache (NewSessionCache c1 f lg url) = stscache (NewSessionCache c2 f lg url)"
    by (rule fmap_ext) (simp only: New_sts assms(1))
  have inS: "\<And>r rg. (r, rg) \<notin> pairsOf (DiscoveryJobs c1) \<Longrightarrow>
               ((r, rg) \<in> pairsOf (Static c1)) = ((r, rg) \<in> pairsOf (Static c2))"
    using assms(2,3) by blast
  have "clients (NewSessionCache c1 f lg url) = clients (NewSessionCache c2 f lg url)"
  proof (rule clients_eqI)
    show "fmdom' (clients (NewSessionCache c1 f lg url)) =
          fmdom' (clients (NewSessionCache c2 f lg url))"
      by (simp only: New_role_keys assms(1))
  next
    fix r rg
    have "lookupEntry (NewSessionCache c1 f lg url) r rg =
          lookupEntry (NewSessionCache c2 f lg url) r rg"
      using inS [of r rg] assms(2) by (simp add: New_lookupEntry)
    then show "entryOf (clients (NewSessionCache c1 f lg url)) r rg =
               entryOf (clients (NewSessionCache c2 f lg url)) r rg"
      by (simp add: lookupEntry_entryOf)
  qed
  moreover have "onlyStatic (newClientCache False) = False \<and>
                 onlyStatic (newClientCache True) = True"
    by (simp add: newClientCache_def)
  ultimately show ?thesis
    using sts New_role_keys [of c1 f lg url] New_lookupEntry [of c1 f lg url r rg]
    by blast
qed

theorem topology_depends_on_sets_witness:
  "stscache (NewSessionCache shuffledConfA True \<lparr>IsDebugEnabled = False\<rparr> []) =
     stscache (NewSessionCache shuffledConfB True \<lparr>IsDebugEnabled = False\<rparr> []) \<and>
   clients (NewSessionCache shuffledConfA True \<lparr>IsDebugEnabled = False\<rparr> []) =
     clients (NewSessionCache shuffledConfB True \<lparr>IsDebugEnabled = False\<rparr> []) \<and>
   lookupEntry (NewSessionCache shuffledConfA True \<lparr>IsDebugEnabled = False\<rparr> [])
     roleAmbient ''eu-west-1'' = Some (newClientCache False) \<and>
   lookupEntry (NewSessionCache shuffledConfA True \<lparr>IsDebugEnabled = False\<rparr> [])
     roleAmbient ''us-west-2'' = Some (newClientCache True)"
proof -
  have h1: "rolesOf (DiscoveryJobs shuffledConfA) \<union> rolesOf (Static shuffledConfA) =
            rolesOf (DiscoveryJobs shuffledConfB) \<union> rolesOf (Static shuffledConfB)"
    by (simp add: rolesOf_def shuffledConfA_def shuffledConfB_def) blast
  have h2: "pairsOf (DiscoveryJobs shuffledConfA) = pairsOf (DiscoveryJobs shuffledConfB)"
    by (simp add: pairsOf_def shuffledConfA_def shuffledConfB_def) blast
  have h3: "pairsOf (DiscoveryJobs shuffledConfA) \<union> pairsOf (Static shuffledConfA) =
            pairsOf (DiscoveryJobs shuffledConfB) \<union> pairsOf (Static shuffledConfB)"
    by (simp add: pairsOf_def shuffledConfA_def shuffledConfB_def) blast
  have p1: "(roleAmbient, ''eu-west-1'') \<in> pairsOf (DiscoveryJobs shuffledConfA)"
    by (simp add: pairsOf_def shuffledConfA_def)
  have p2: "(roleAmbient, ''us-west-2'') \<notin> pairsOf (DiscoveryJobs shuffledConfA)"
    by (simp add: pairsOf_def shuffledConfA_def roleAmbient_def roleX_def)
  have p3: "(roleAmbient, ''us-west-2'') \<in> pairsOf (Static shuffledConfA)"
    by (simp add: pairsOf_def shuffledConfA_def)
  show ?thesis
    using topology_depends_on_sets [OF h1 h2 h3, of True "\<lparr>IsDebugEnabled = False\<rparr>" "[]"
            roleAmbient "''eu-west-1''"]
          topology_depends_on_sets [OF h1 h2 h3, of True "\<lparr>IsDebugEnabled = False\<rparr>" "[]"
            roleAmbient "''us-west-2''"]
          p1 p2 p3
    by simp
qed

theorem topology_pairs_only_counterexample:
  "pairsOf (DiscoveryJobs noRegionConf) = pairsOf (DiscoveryJobs emptyConf) \<and>
   pairsOf (Static noRegionConf) = pairsOf (Static emptyConf) \<and>
   fmdom' (stscache (NewSessionCache noRegionConf True \<lparr>IsDebugEnabled = False\<rparr> [])) \<noteq>
   fmdom' (stscache (NewSessionCache emptyConf True \<lparr>IsDebugEnabled = False\<rparr> []))"
  by (simp add: New_role_keys pairsOf_def rolesOf_def noRegionConf_def emptyConf_def)

section \<open>Static-only entries\<close>










lemma scenario_pairs:
  "(roleX, ''us-east-1'') \<in> pairsOf (DiscoveryJobs scenarioConf)"
  "(roleAmbient, ''eu-west-1'') \<notin> pairsOf (DiscoveryJobs scenarioConf)"
  "(roleAmbient, ''eu-west-1'') \<in> pairsOf (Static scenarioConf)"
  by (simp_all add: pairsOf_def scenarioConf_def roleX_def roleAmbient_def)

lemma scenario_entries:
  "lookupEntry scenarioCache roleX ''us-east-1'' = Some (newClientCache False)"
  "lookupEntry scenarioCache roleAmbient ''eu-west-1'' = Some (newClientCache True)"
  by (simp_all add: scenarioCache_def New_lookupEntry scenario_pairs)

lemma scenario_flags:
  "\<not> refreshed scenarioCache" "\<not> cleared scenarioCache" "session scenarioCache = None"
  "fips scenarioCache" "\<not> IsDebugEnabled (logger scenarioCache)"
  "endpointResolver scenarioCache = DefaultResolver" "stsRegion scenarioCache = []"
  "sessionsCreated scenarioCache = 0" "clientsBuilt scenarioCache = 0"
  by (simp_all add: scenarioCache_def NewSessionCache_def scenarioConf_def)

lemma scenario_ensured: "ensuredSession scenarioCache = scenarioSession"
  by (simp add: ensuredSession_def scenario_flags scenarioSession_def)

lemma scenario_sts:
  "fmlookup (stscache scenarioCache) roleX = Some None"
  "fmlookup (stscache scenarioCache) roleAmbient = Some None"
  by (simp_all add: scenarioCache_def New_sts rolesOf_def scenarioConf_def)

text \<open>The scenario after its first Refresh: a session, and every slot that Refresh fills.\<close>

lemma warm_frame:
  "session (Refresh scenarioCache) = Some scenarioSession"
  "refreshed (Refresh scenarioCache)" "\<not> cleared (Refresh scenarioCache)"
  "fips (Refresh scenarioCache)" "\<not> IsDebugEnabled (logger (Refresh scenarioCache))"
  by (simp_all add: Refresh_session Refresh_settings refreshed_Refresh cleared_Refresh
                    scenario_flags scenario_ensured)

lemma warm_entries:
  "lookupEntry (Refresh scenarioCache) roleX ''us-east-1'' =
     Some (refreshEntry scenarioSession True False roleX ''us-east-1'' (newClientCache False))"
  "lookupEntry (Refresh scenarioCache) roleAmbient ''eu-west-1'' =
     Some (refreshEntry scenarioSession True False roleAmbient ''eu-west-1''
             (newClientCache True))"
  by (simp_all add: lookupEntry_Refresh scenario_entries scenario_flags scenario_ensured)

lemma warm_entry_slots:
  "onlyStatic (refreshEntry sess f dbg role rg (newClientCache b)) = b"
  "cloudwatch (refreshEntry sess f dbg role rg (newClientCache b)) =
     Some (createCloudwatchSession sess rg role f dbg)"
  "tagging (refreshEntry sess f dbg role rg (newClientCache b)) =
     (if b then None else Some (createTagSession sess rg role dbg))"
  "asg (refreshEntry sess f dbg role rg (newClientCache b)) =
     (if b then None else Some (createASGSession sess rg role dbg))"
  "ec2 (refreshEntry sess f dbg role rg (newClientCache b)) =
     (if b then None else Some (createEC2Session sess rg role f dbg))"
  by (simp_all add: refreshEntry_def newClientCache_def Let_def)

text \<open>
  The builder counter on the scenario: a first Refresh builds two identity clients,
  six clients for the discovery pair and one for the static-only pair.
\<close>

lemma scenario_refresh_builds: "clientsBuilt (Refresh scenarioCache) = 9"
  by (simp add: Refresh_def refreshAll_def Let_def refreshBuilds_def fmsum_def scenarioCache_def
                NewSessionCache_def buildCaches_def jobsLoop_def roleStep_def scenarioConf_def
                discoveryRegion_def staticRegion_def newClientCache_def roleX_def
                roleAmbient_def)



section \<open>Endpoints of the builders\<close>

lemma tag_asg_endpoint:
  "Endpoint (clientConfig (createTagSession sess region role dbg)) = None"
  "Endpoint (clientConfig (createASGSession sess region role dbg)) = None"
  by (simp_all add: createTagSession_def createASGSession_def Let_def withDebug_def
                    setSTSCreds_def emptyConfig_def)

lemma fips_endpoints:
  "Endpoint (clientConfig (createStsSession sess role region True dbg)) =
     Some (''https://sts-fips.'' @ region @ ''.amazonaws.com'')"
  "Endpoint (clientConfig (createCloudwatchSession sess region role True dbg)) =
     Some (''https://monitoring-fips.'' @ region @ ''.amazonaws.com'')"
  "Endpoint (clientConfig (createEC2Session sess region role True dbg)) =
     Some (''https://ec2-fips.'' @ region @ ''.amazonaws.com'')"
  "Endpoint (clientConfig (createDMSSession sess region role True dbg)) =
     Some (''https://dms-fips.'' @ region @ ''.amazonaws.com'')"
  "Endpoint (clientConfig (createAPIGatewaySession sess region role True dbg)) =
     Some (''https://apigateway-fips.'' @ region @ ''.amazonaws.com'')"
  by (simp_all add: createStsSession_def createCloudwatchSession_def createEC2Session_def
                    createDMSSession_def createAPIGatewaySession_def Let_def withDebug_def
                    withFips_def setSTSCreds_def emptyConfig_def)

lemma noOverride_entryAfter: "noOverride e \<Longrightarrow> noOverride (entryAfter c s r rg e)"
  by (cases c)
     (simp_all add: noOverride_def defaultEndpoint_def refreshEntry_def clearEntry_def Let_def
                    tag_asg_endpoint split: option.splits)

lemma noOverride_step:
  assumes "\<forall>r rg e. lookupEntry s r rg = Some e \<longrightarrow> noOverride e" and "step c s = Inr s'"
  shows "\<forall>r rg e. lookupEntry s' r rg = Some e \<longrightarrow> noOverride e"
proof (intro allI impI)
  fix r rg e'
  assume "lookupEntry s' r rg = Some e'"
  then obtain e where "lookupEntry s r rg = Some e" and "e' = entryAfter c s r rg e"
    using step_entry [OF assms(2), of r rg] by (cases "lookupEntry s r rg") auto
  with assms(1) show "noOverride e'" by (simp add: noOverride_entryAfter)
qed

lemma noOverride_run:
  "\<forall>r rg e. lookupEntry s r rg = Some e \<longrightarrow> noOverride e \<Longrightarrow> run calls s = Inr s'
     \<Longrightarrow> \<forall>r rg e. lookupEntry s' r rg = Some e \<longrightarrow> noOverride e"
proof (induction calls arbitrary: s)
  case Nil
  then show ?case by simp
next
  case (Cons c cs)
  from Cons.prems(2) obtain s1 where s1: "step c s = Inr s1" and rest: "run cs s1 = Inr s'"
    by (auto split: sum.splits)
  from noOverride_step [OF Cons.prems(1) s1] rest show ?case by (rule Cons.IH)
qed

lemma noOverride_New:
  "\<forall>r rg e. lookupEntry (NewSessionCache config f lg url) r rg = Some e \<longrightarrow> noOverride e"
  by (auto simp: New_lookupEntry noOverride_def defaultEndpoint_def newClientCache_def
           split: if_splits)

text \<open>
  C10.  The tagging and autoscaling builders take no compliance-mode flag and never
  set an endpoint: their clients are left to the session's endpoint resolution.  The
  identity, metrics, compute, migration and gateway builders, called with the flag
  set, put the region into their fixed FIPS URL.  In every state reached from a
  constructed cache, whatever its compliance-mode flag, a populated tagging or
  autoscaling slot holds a client without an endpoint override.
\<close>

theorem tagging_asg_no_fips_endpoint:
  "Endpoint (clientConfig (createTagSession sess region role dbg)) = None \<and>
   Endpoint (clientConfig (createASGSession sess region role dbg)) = None \<and>
   Endpoint (clientConfig (createStsSession sess role region True dbg)) =
     Some (''https://sts-fips.'' @ region @ ''.amazonaws.com'') \<and>
   Endpoint (clientConfig (createCloudwatchSession sess region role True dbg)) =
     Some (''https://monitoring-fips.'' @ region @ ''.amazonaws.com'') \<and>
   Endpoint (clientConfig (createEC2Session sess region role True dbg)) =
     Some (''https://ec2-fips.'' @ region @ ''.amazonaws.com'') \<and>
   Endpoint (clientConfig (createDMSSession sess region role True dbg)) =
     Some (''https://dms-fips.'' @ region @ ''.amazonaws.com'') \<and>
   Endpoint (clientConfig (createAPIGatewaySession sess region role True dbg)) =
     Some (''https://apigateway-fips.'' @ region @ ''.amazonaws.com'') \<and>
   (run calls (NewSessionCache config fipsFlag lg url) = Inr s \<longrightarrow>
    lookupEntry s r rg = Some e \<longrightarrow>
      (\<forall>c. tagging e = Some c \<longrightarrow> Endpoint (clientConfig c) = None) \<and>
      (\<forall>c. asg e = Some c \<longrightarrow> Endpoint (clientConfig c) = None))"
proof -
  have "run calls (NewSessionCache config fipsFlag lg url) = Inr s \<longrightarrow>
        lookupEntry s r rg = Some e \<longrightarrow>
          (\<forall>c. tagging e = Some c \<longrightarrow> Endpoint (clientConfig c) = None) \<and>
          (\<forall>c. asg e = Some c \<longrightarrow> Endpoint (clientConfig c) = None)"
  proof (intro impI)
    assume "run calls (NewSessionCache config fipsFlag lg url) = Inr s"
      and "lookupEntry s r rg = Some e"
    with noOverride_run [OF noOverride_New] have "noOverride e" by blast
    then show "(\<forall>c. tagging e = Some c \<longrightarrow> Endpoint (clientConfig c) = None) \<and>
               (\<forall>c. asg e = Some c \<longrightarrow> Endpoint (clientConfig c) = None)"
      by (auto simp: noOverride_def defaultEndpoint_def)
  qed
  then show ?thesis
    by (simp only: tag_asg_endpoint fips_endpoints simp_thms)
qed

theorem tagging_asg_no_fips_endpoint_witness:
  "fips scenarioCache \<and>
   run [CallRefresh] scenarioCache = Inr (Refresh scenarioCache) \<and>
   lookupEntry (Refresh scenarioCache) roleX ''us-east-1'' =
     Some (refreshEntry scenarioSession True False roleX ''us-east-1'' (newClientCache False)) \<and>
   tagging (refreshEntry scenarioSession True False roleX ''us-east-1'' (newClientCache False)) =
     Some (createTagSession scenarioSession ''us-east-1'' roleX False) \<and>
   Endpoint (clientConfig (createTagSession scenarioSession ''us-east-1'' roleX False)) = None"
proof -
  let ?e = "refreshEntry scenarioSession True False roleX ''us-east-1'' (newClientCache False)"
  have h1: "run [CallRefresh] scenarioCache = Inr (Refresh scenarioCache)" by simp
  have t: "tagging ?e = Some (createTagSession scenarioSession ''us-east-1'' roleX False)"
    by (simp add: warm_entry_slots)
  show ?thesis
    using tagging_asg_no_fips_endpoint [of scenarioSession "''us-east-1''" roleX False
            "[CallRefresh]" scenarioConf True "\<lparr>IsDebugEnabled = False\<rparr>" "[]"
            "Refresh scenarioCache" roleX "''us-east-1''" ?e]
          h1 warm_entries(1) t scenario_flags(4)
    by (simp add: scenarioCache_def)
qed

section \<open>Clear\<close>

lemma clearEntry_fields:
  "cloudwatch (clearEntry e) = None" "tagging (clearEntry e) = None" "asg (clearEntry e) = None"
  "ec2 (clearEntry e) = None" "dms (clearEntry e) = None" "apiGateway (clearEntry e) = None"
  "onlyStatic (clearEntry e) = onlyStatic e"
  by (simp_all add: clearEntry_def)

lemma Clear_idem: "Clear (Clear s) = Clear s"
  by (simp add: Clear_cleared cleared_Clear)

lemma Clear_frame:
  "session (Clear s) = session s" "sessionsCreated (Clear s) = sessionsCreated s"
  "clientsBuilt (Clear s) = clientsBuilt s"
  "fips (Clear s) = fips s" "logger (Clear s) = logger s" "stsRegion (Clear s) = stsRegion s"
  by (simp_all add: Clear_def)

lemma Clear_sts:
  "\<not> cleared s \<Longrightarrow> fmlookup (stscache (Clear s)) r = map_option (\<lambda>_. None) (fmlookup (stscache s) r)"
  by (simp add: Clear_def)

lemma Clear_doms:
  "fmdom' (stscache (Clear s)) = fmdom' (stscache s)"
  "fmdom' (clients (Clear s)) = fmdom' (clients s)"
  by (simp_all add: Clear_def)

lemma Refresh_stsRegion: "stsRegion (Refresh s) = stsRegion s"
proof (cases "refreshed s")
  case True
  then show ?thesis by (simp add: Refresh_def)
next
  case False
  then show ?thesis by (simp add: Refresh_fresh refreshAll_def Let_def)
qed

lemma sts_Refresh:
  "\<not> refreshed s \<Longrightarrow>
   fmlookup (stscache (Refresh s)) r =
     map_option (\<lambda>_. Some (createStsSession (ensuredSession s) r (stsRegion s) (fips s)
                             (IsDebugEnabled (logger s))))
       (fmlookup (stscache s) r)"
  by (simp add: Refresh_fresh refreshAll_def Let_def)

text \<open>
  C7, as amended.  Clear is idempotent and builds nothing; it never touches the
  session handle and never removes or adds a key.  A Clear that starts with the
  \<open>cleared\<close> flag false empties every identity slot and every slot of every entry
  and ends with \<open>cleared\<close> true and \<open>refreshed\<close> false.  A Clear that starts with
  the \<open>cleared\<close> flag true changes nothing.
\<close>

theorem Clear_empties_unless_cleared:
  "(cleared s \<longrightarrow> Clear s = s) \<and>
   Clear (Clear s) = Clear s \<and>
   clientsBuilt (Clear s) = clientsBuilt s \<and>
   sessionsCreated (Clear s) = sessionsCreated s \<and>
   session (Clear s) = session s \<and>
   fmdom' (stscache (Clear s)) = fmdom' (stscache s) \<and>
   fmdom' (clients (Clear s)) = fmdom' (clients s) \<and>
   (lookupEntry (Clear s) r rg = None) = (lookupEntry s r rg = None) \<and>
   cleared (Clear s) \<and>
   (\<not> cleared s \<longrightarrow>
      \<not> refreshed (Clear s) \<and>
      (fmlookup (stscache s) r \<noteq> None \<longrightarrow> fmlookup (stscache (Clear s)) r = Some None) \<and>
      (lookupEntry s r rg = Some e \<longrightarrow>
         (\<exists>e'. lookupEntry (Clear s) r rg = Some e' \<and> onlyStatic e' = onlyStatic e \<and>
               cloudwatch e' = None \<and> tagging e' = None \<and> asg e' = None \<and> ec2 e' = None \<and>
               dms e' = None \<and> apiGateway e' = None)))"
proof -
  have keys: "(lookupEntry (Clear s) r rg = None) = (lookupEntry s r rg = None)"
    by (simp add: lookupEntry_Clear)
  have sts: "\<not> cleared s \<Longrightarrow> fmlookup (stscache s) r \<noteq> None \<Longrightarrow>
             fmlookup (stscache (Clear s)) r = Some None"
    by (cases "fmlookup (stscache s) r") (simp_all add: Clear_sts)
  have ent: "\<not> cleared s \<Longrightarrow> lookupEntry s r rg = Some e \<Longrightarrow>
             lookupEntry (Clear s) r rg = Some (clearEntry e)"
    by (simp add: lookupEntry_Clear)
  show ?thesis
    using keys sts ent
    by (simp add: Clear_cleared Clear_idem Clear_frame Clear_doms cleared_Clear refreshed_Clear
                  clearEntry_fields)
qed

lemma warm_sts:
  "fmlookup (stscache (Refresh scenarioCache)) roleX =
     Some (Some (createStsSession scenarioSession roleX [] True False))"
  by (simp add: sts_Refresh scenario_flags scenario_sts scenario_ensured)

theorem Clear_empties_unless_cleared_witness:
  "\<not> cleared (Refresh scenarioCache) \<and>
   fmlookup (stscache (Refresh scenarioCache)) roleX \<noteq> None \<and>
   lookupEntry (Refresh scenarioCache) roleX ''us-east-1'' =
     Some (refreshEntry scenarioSession True False roleX ''us-east-1'' (newClientCache False)) \<and>
   ec2 (refreshEntry scenarioSession True False roleX ''us-east-1'' (newClientCache False)) \<noteq>
     None \<and>
   fmlookup (stscache (Clear (Refresh scenarioCache))) roleX = Some None \<and>
   (\<exists>e'. lookupEntry (Clear (Refresh scenarioCache)) roleX ''us-east-1'' = Some e' \<and>
         ec2 e' = None \<and> cloudwatch e' = None) \<and>
   cleared (Clear scenarioCache) \<and> Clear (Clear scenarioCache) = Clear scenarioCache"
proof -
  let ?e = "refreshEntry scenarioSession True False roleX ''us-east-1'' (newClientCache False)"
  note T = Clear_empties_unless_cleared [of "Refresh scenarioCache" roleX "''us-east-1''" ?e]
  note U = Clear_empties_unless_cleared [of "Clear scenarioCache" roleX "''us-east-1''" ?e]
  have w: "fmlookup (stscache (Refresh scenarioCache)) roleX \<noteq> None"
    by (simp add: warm_sts)
  note N = T [THEN conjunct2, THEN conjunct2, THEN conjunct2, THEN conjunct2, THEN conjunct2,
              THEN conjunct2, THEN conjunct2, THEN conjunct2, THEN conjunct2, rule_format,
              OF warm_frame(3)]
  note N2 = N [THEN conjunct2, THEN conjunct1, rule_format, OF w]
  note N3 = N [THEN conjunct2, THEN conjunct2, rule_format, OF warm_entries(1)]
  have c: "cleared (Clear scenarioCache)" by (simp add: Clear_def)
  note U1 = U [THEN conjunct1, rule_format, OF c]
  have p: "ec2 ?e \<noteq> None" by (simp add: warm_entry_slots)
  from N3 have "\<exists>e'. lookupEntry (Clear (Refresh scenarioCache)) roleX ''us-east-1'' = Some e' \<and>
                     ec2 e' = None \<and> cloudwatch e' = None" by blast
  with N2 U1 c p w warm_frame(3) warm_entries(1) show ?thesis by simp
qed

text \<open>
  The scenario after a Refresh and a Clear: the session handle is there and every
  slot is empty again.
\<close>

lemma cold_frame:
  "session (Clear (Refresh scenarioCache)) = Some scenarioSession"
  "cleared (Clear (Refresh scenarioCache))"
  "fips (Clear (Refresh scenarioCache))"
  "\<not> IsDebugEnabled (logger (Clear (Refresh scenarioCache)))"
  "stsRegion (Clear (Refresh scenarioCache)) = []"
  "clientsBuilt (Clear (Refresh scenarioCache)) = 9"
  "sessionsCreated (Clear (Refresh scenarioCache)) = 1"
  by (simp_all add: Clear_frame cleared_Clear warm_frame scenario_refresh_builds
                    Refresh_session scenario_flags scenario_ensured Refresh_stsRegion)

lemma cold_entries:
  "fmlookup (stscache (Clear (Refresh scenarioCache))) roleX = Some None"
  "lookupEntry (Clear (Refresh scenarioCache)) roleX ''us-east-1'' = Some (newClientCache False)"
  by (simp_all add: Clear_sts lookupEntry_Clear warm_frame warm_sts warm_entries
                    clearEntry_def refreshEntry_def newClientCache_def Let_def)

theorem Clear_after_lazy_get_counterexample:
  "(case run [CallRefresh, CallClear, CallGetSTS roleX] scenarioCache of
      Inl err \<Rightarrow> False
    | Inr s \<Rightarrow> cleared s \<and>
               fmlookup (stscache s) roleX =
                 Some (Some (createStsSession scenarioSession roleX [] True False)) \<and>
               fmlookup (stscache (Clear s)) roleX = fmlookup (stscache s) roleX \<and>
               Clear s = s)"
proof -
  let ?c = "createStsSession scenarioSession roleX [] True False"
  let ?s = "built ((Clear (Refresh scenarioCache))
                     \<lparr>stscache := fmupd roleX (Some ?c) (stscache (Clear (Refresh scenarioCache)))\<rparr>)"
  have g: "GetSTS roleX (Clear (Refresh scenarioCache)) = Inr (?c, ?s)"
    by (simp add: GetSTS_def Let_def cold_frame cold_entries)
  have c: "cleared ?s" by (simp add: built_def cold_frame)
  then have "Clear ?s = ?s" by (rule Clear_cleared)
  moreover have "fmlookup (stscache ?s) roleX = Some (Some ?c)" by (simp add: built_def)
  ultimately show ?thesis using g c by simp
qed

section \<open>The accessors on declared keys\<close>

lemma builder_session:
  "clientSession (createStsSession sess role region f dbg) = sess"
  "clientSession (createCloudwatchSession sess rg role f dbg) = sess"
  "clientSession (createTagSession sess rg role dbg) = sess"
  "clientSession (createASGSession sess rg role dbg) = sess"
  "clientSession (createEC2Session sess rg role f dbg) = sess"
  "clientSession (createDMSSession sess rg role f dbg) = sess"
  "clientSession (createAPIGatewaySession sess rg role f dbg) = sess"
  by (simp_all add: createStsSession_def createCloudwatchSession_def createTagSession_def
        createASGSession_def createEC2Session_def createDMSSession_def
        createAPIGatewaySession_def Let_def)

lemma builder_service:
  "service (createStsSession sess role region f dbg) = STS"
  "service (createCloudwatchSession sess rg role f dbg) = CloudWatch"
  "service (createTagSession sess rg role dbg) = ResourceGroupsTaggingAPI"
  "service (createASGSession sess rg role dbg) = AutoScaling"
  "service (createEC2Session sess rg role f dbg) = EC2"
  "service (createDMSSession sess rg role f dbg) = DatabaseMigrationService"
  "service (createAPIGatewaySession sess rg role f dbg) = APIGateway"
  by (simp_all add: createStsSession_def createCloudwatchSession_def createTagSession_def
        createASGSession_def createEC2Session_def createDMSSession_def
        createAPIGatewaySession_def Let_def)

text \<open>
  Every builder gives its client the credentials the role asks for: \<open>setSTSCreds\<close>
  and \<open>setExternalID\<close> together compute \<open>assumeRole\<close>.
\<close>

lemma Credentials_setSTSCreds:
  "Credentials config = None \<Longrightarrow> Credentials (setSTSCreds sess config role) = assumeRole sess role"
  by (simp add: setSTSCreds_def setExternalID_def assumeRole_def)

lemma builder_credentials:
  "Credentials (clientConfig (createStsSession sess role region f dbg)) = assumeRole sess role"
  "Credentials (clientConfig (createCloudwatchSession sess rg role f dbg)) = assumeRole sess role"
  "Credentials (clientConfig (createTagSession sess rg role dbg)) = assumeRole sess role"
  "Credentials (clientConfig (createASGSession sess rg role dbg)) = assumeRole sess role"
  "Credentials (clientConfig (createEC2Session sess rg role f dbg)) = assumeRole sess role"
  "Credentials (clientConfig (createDMSSession sess rg role f dbg)) = assumeRole sess role"
  "Credentials (clientConfig (createAPIGatewaySession sess rg role f dbg)) = assumeRole sess role"
  by (simp_all add: createStsSession_def createCloudwatchSession_def createTagSession_def
        createASGSession_def createEC2Session_def createDMSSession_def
        createAPIGatewaySession_def Let_def Credentials_setSTSCreds withDebug_def withFips_def
        emptyConfig_def)

lemma Region_setSTSCreds: "Region (setSTSCreds sess config role) = Region config"
  by (simp add: setSTSCreds_def)

lemma builder_region:
  "Region (clientConfig (createCloudwatchSession sess rg role f dbg)) = Some rg"
  "Region (clientConfig (createTagSession sess rg role dbg)) = Some rg"
  "Region (clientConfig (createASGSession sess rg role dbg)) = Some rg"
  "Region (clientConfig (createEC2Session sess rg role f dbg)) = Some rg"
  "Region (clientConfig (createDMSSession sess rg role f dbg)) = Some rg"
  "Region (clientConfig (createAPIGatewaySession sess rg role f dbg)) = Some rg"
  by (simp_all add: createCloudwatchSession_def createTagSession_def
        createASGSession_def createEC2Session_def createDMSSession_def
        createAPIGatewaySession_def Let_def Region_setSTSCreds withDebug_def withFips_def
        emptyConfig_def)

lemma built_updEntry_fields:
  "stscache (built (updEntry role rg f s)) = stscache s"
  "clientsBuilt (built (updEntry role rg f s)) = clientsBuilt s + 1"
  "fmdom' (clients (built (updEntry role rg f s))) = fmdom' (clients s)"
  by (simp_all add: built_def updEntry_def fmdom'_alt_def)

lemma lookupEntry_updEntry_same:
  "lookupEntry s role rg = Some e \<Longrightarrow> lookupEntry (updEntry role rg f s) role rg = Some (f e)"
  by (simp add: lookupEntry_updEntry)

lemma lookupEntry_updEntry_other:
  "(r', rg') \<noteq> (role, rg) \<Longrightarrow> lookupEntry (updEntry role rg f s) r' rg' = lookupEntry s r' rg'"
  by (cases "lookupEntry s r' rg'") (auto simp: lookupEntry_updEntry)

lemma lazyBuiltI:
  assumes "lookupEntry s role rg = Some e"
    and "session s = Some (clientSession c)"
    and "Credentials (clientConfig c) = assumeRole (clientSession c) role"
    and "Region (clientConfig c) = Some rg"
  shows "lazyBuilt s role rg c (f e) (built (updEntry role rg f s))"
  unfolding lazyBuilt_def
  using assms
  by (simp add: lookupEntry_built lookupEntry_updEntry_same lookupEntry_updEntry_other
                built_updEntry_fields sameFrame_built_updEntry)

text \<open>
  The accessors on a key that is in the maps.  A populated slot is returned as it is.
  An empty slot is filled by one build on the session of the cache, when the cache has
  one; when it has none, the call panics and nothing is stored.
\<close>

lemma GetCloudwatch_declared:
  assumes "lookupEntry s role rg = Some e"
  shows "(cloudwatch e = Some c \<longrightarrow> GetCloudwatch (Some rg) role s = Inr (c, s)) \<and>
         (cloudwatch e = None \<longrightarrow> session s = None \<longrightarrow>
            GetCloudwatch (Some rg) role s = Inl NilPointerDereference) \<and>
         (cloudwatch e = None \<longrightarrow> session s = Some h \<longrightarrow>
            (\<exists>c' s'. GetCloudwatch (Some rg) role s = Inr (c', s') \<and> service c' = CloudWatch \<and>
                      lazyBuilt s role rg c' (e\<lparr>cloudwatch := Some c'\<rparr>) s'))"
proof (intro conjI impI)
  assume "cloudwatch e = Some c"
  with assms show "GetCloudwatch (Some rg) role s = Inr (c, s)" by (simp add: GetCloudwatch_def)
next
  assume "cloudwatch e = None" and "session s = None"
  with assms show "GetCloudwatch (Some rg) role s = Inl NilPointerDereference"
    by (simp add: GetCloudwatch_def)
next
  let ?c = "createCloudwatchSession h rg role (fips s) (IsDebugEnabled (logger s))"
  assume empty: "cloudwatch e = None" and h: "session s = Some h"
  have "lazyBuilt s role rg ?c (e\<lparr>cloudwatch := Some ?c\<rparr>)
          (built (updEntry role rg (\<lambda>e. e\<lparr>cloudwatch := Some ?c\<rparr>) s))"
    using assms h
    by (intro lazyBuiltI) (simp_all add: builder_session builder_credentials builder_region)
  moreover have "GetCloudwatch (Some rg) role s =
                   Inr (?c, built (updEntry role rg (\<lambda>e. e\<lparr>cloudwatch := Some ?c\<rparr>) s))"
    using assms empty h by (simp add: GetCloudwatch_def Let_def)
  ultimately show "\<exists>c' s'. GetCloudwatch (Some rg) role s = Inr (c', s') \<and> service c' = CloudWatch \<and>
                      lazyBuilt s role rg c' (e\<lparr>cloudwatch := Some c'\<rparr>) s'"
    by (simp add: builder_service)
qed

lemma GetTagging_declared:
  assumes "lookupEntry s role rg = Some e"
  shows "(tagging e = Some c \<longrightarrow> GetTagging (Some rg) role s = Inr (c, s)) \<and>
         (tagging e = None \<longrightarrow> session s = None \<longrightarrow>
            GetTagging (Some rg) role s = Inl NilPointerDereference) \<and>
         (tagging e = None \<longrightarrow> session s = Some h \<longrightarrow>
            (\<exists>c' s'. GetTagging (Some rg) role s = Inr (c', s') \<and> service c' = ResourceGroupsTaggingAPI \<and>
                      lazyBuilt s role rg c' (e\<lparr>tagging := Some c'\<rparr>) s'))"
proof (intro conjI impI)
  assume "tagging e = Some c"
  with assms show "GetTagging (Some rg) role s = Inr (c, s)" by (simp add: GetTagging_def)
next
  assume "tagging e = None" and "session s = None"
  with assms show "GetTagging (Some rg) role s = Inl NilPointerDereference"
    by (simp add: GetTagging_def)
next
  let ?c = "createTagSession h rg role (fips s)"
  assume empty: "tagging e = None" and h: "session s = Some h"
  have "lazyBuilt s role rg ?c (e\<lparr>tagging := Some ?c\<rparr>)
          (built (updEntry role rg (\<lambda>e. e\<lparr>tagging := Some ?c\<rparr>) s))"
    using assms h
    by (intro lazyBuiltI) (simp_all add: builder_session builder_credentials builder_region)
  moreover have "GetTagging (Some rg) role s =
                   Inr (?c, built (updEntry role rg (\<lambda>e. e\<lparr>tagging := Some ?c\<rparr>) s))"
    using assms empty h by (simp add: GetTagging_def Let_def)
  ultimately show "\<exists>c' s'. GetTagging (Some rg) role s = Inr (c', s') \<and> service c' = ResourceGroupsTaggingAPI \<and>
                      lazyBuilt s role rg c' (e\<lparr>tagging := Some c'\<rparr>) s'"
    by (simp add: builder_service)
qed

lemma GetASG_declared:
  assumes "lookupEntry s role rg = Some e"
  shows "(asg e = Some c \<longrightarrow> GetASG (Some rg) role s = Inr (c, s)) \<and>
         (asg e = None \<longrightarrow> session s = None \<longrightarrow>
            GetASG (Some rg) role s = Inl NilPointerDereference) \<and>
         (asg e = None \<longrightarrow> session s = Some h \<longrightarrow>
            (\<exists>c' s'. GetASG (Some rg) role s = Inr (c', s') \<and> service c' = AutoScaling \<and>
                      lazyBuilt s role rg c' (e\<lparr>asg := Some c'\<rparr>) s'))"
proof (intro conjI impI)
  assume "asg e = Some c"
  with assms show "GetASG (Some rg) role s = Inr (c, s)" by (simp add: GetASG_def)
next
  assume "asg e = None" and "session s = None"
  with assms show "GetASG (Some rg) role s = Inl NilPointerDereference"
    by (simp add: GetASG_def)
next
  let ?c = "createASGSession h rg role (fips s)"
  assume empty: "asg e = None" and h: "session s = Some h"
  have "lazyBuilt s role rg ?c (e\<lparr>asg := Some ?c\<rparr>)
          (built (updEntry role rg (\<lambda>e. e\<lparr>asg := Some ?c\<rparr>) s))"
    using assms h
    by (intro lazyBuiltI) (simp_all add: builder_session builder_credentials builder_region)
  moreover have "GetASG (Some rg) role s =
                   Inr (?c, built (updEntry role rg (\<lambda>e. e\<lparr>asg := Some ?c\<rparr>) s))"
    using assms empty h by (simp add: GetASG_def Let_def)
  ultimately show "\<exists>c' s'. GetASG (Some rg) role s = Inr (c', s') \<and> service c' = AutoScaling \<and>
                      lazyBuilt s role rg c' (e\<lparr>asg := Some c'\<rparr>) s'"
    by (simp add: builder_service)
qed

lemma GetEC2_declared:
  assumes "lookupEntry s role rg = Some e"
  shows "(ec2 e = Some c \<longrightarrow> GetEC2 (Some rg) role s = Inr (c, s)) \<and>
         (ec2 e = None \<longrightarrow> session s = None \<longrightarrow>
            GetEC2 (Some rg) role s = Inl NilPointerDereference) \<and>
         (ec2 e = None \<longrightarrow> session s = Some h \<longrightarrow>
            (\<exists>c' s'. GetEC2 (Some rg) role s = Inr (c', s') \<and> service c' = EC2 \<and>
                      lazyBuilt s role rg c' (e\<lparr>ec2 := Some c'\<rparr>) s'))"
proof (intro conjI impI)
  assume "ec2 e = Some c"
  with assms show "GetEC2 (Some rg) role s = Inr (c, s)" by (simp add: GetEC2_def)
next
  assume "ec2 e = None" and "session s = None"
  with assms show "GetEC2 (Some rg) role s = Inl NilPointerDereference"
    by (simp add: GetEC2_def)
next
  let ?c = "createEC2Session h rg role (fips s) (IsDebugEnabled (logger s))"
  assume empty: "ec2 e = None" and h: "session s = Some h"
  have "lazyBuilt s role rg ?c (e\<lparr>ec2 := Some ?c\<rparr>)
          (built (updEntry role rg (\<lambda>e. e\<lparr>ec2 := Some ?c\<rparr>) s))"
    using assms h
    by (intro lazyBuiltI) (simp_all add: builder_session builder_credentials builder_region)
  moreover have "GetEC2 (Some rg) role s =
                   Inr (?c, built (updEntry role rg (\<lambda>e. e\<lparr>ec2 := Some ?c\<rparr>) s))"
    using assms empty h by (simp add: GetEC2_def Let_def)
  ultimately show "\<exists>c' s'. GetEC2 (Some rg) role s = Inr (c', s') \<and> service c' = EC2 \<and>
                      lazyBuilt s role rg c' (e\<lparr>ec2 := Some c'\<rparr>) s'"
    by (simp add: builder_service)
qed

lemma GetDMS_declared:
  assumes "lookupEntry s role rg = Some e"
  shows "(dms e = Some c \<longrightarrow> GetDMS (Some rg) role s = Inr (c, s)) \<and>
         (dms e = None \<longrightarrow> session s = None \<longrightarrow>
            GetDMS (Some rg) role s = Inl NilPointerDereference) \<and>
         (dms e = None \<longrightarrow> session s = Some h \<longrightarrow>
            (\<exists>c' s'. GetDMS (Some rg) role s = Inr (c', s') \<and> service c' = DatabaseMigrationService \<and>
                      lazyBuilt s role rg c' (e\<lparr>dms := Some c'\<rparr>) s'))"
proof (intro conjI impI)
  assume "dms e = Some c"
  with assms show "GetDMS (Some rg) role s = Inr (c, s)" by (simp add: GetDMS_def)
next
  assume "dms e = None" and "session s = None"
  with assms show "GetDMS (Some rg) role s = Inl NilPointerDereference"
    by (simp add: GetDMS_def)
next
  let ?c = "createDMSSession h rg role (fips s) (IsDebugEnabled (logger s))"
  assume empty: "dms e = None" and h: "session s = Some h"
  have "lazyBuilt s role rg ?c (e\<lparr>dms := Some ?c\<rparr>)
          (built (updEntry role rg (\<lambda>e. e\<lparr>dms := Some ?c\<rparr>) s))"
    using assms h
    by (intro lazyBuiltI) (simp_all add: builder_session builder_credentials builder_region)
  moreover have "GetDMS (Some rg) role s =
                   Inr (?c, built (updEntry role rg (\<lambda>e. e\<lparr>dms := Some ?c\<rparr>) s))"
    using assms empty h by (simp add: GetDMS_def Let_def)
  ultimately show "\<exists>c' s'. GetDMS (Some rg) role s = Inr (c', s') \<and> service c' = DatabaseMigrationService \<and>
                      lazyBuilt s role rg c' (e\<lparr>dms := Some c'\<rparr>) s'"
    by (simp add: builder_service)
qed

lemma GetAPIGateway_declared:
  assumes "lookupEntry s role rg = Some e"
  shows "(apiGateway e = Some c \<longrightarrow> GetAPIGateway (Some rg) role s = Inr (c, s)) \<and>
         (apiGateway e = None \<longrightarrow> session s = None \<longrightarrow>
            GetAPIGateway (Some rg) role s = Inl NilPointerDereference) \<and>
         (apiGateway e = None \<longrightarrow> session s = Some h \<longrightarrow>
            (\<exists>c' s'. GetAPIGateway (Some rg) role s = Inr (c', s') \<and> service c' = APIGateway \<and>
                      lazyBuilt s role rg c' (e\<lparr>apiGateway := Some c'\<rparr>) s'))"
proof (intro conjI impI)
  assume "apiGateway e = Some c"
  with assms show "GetAPIGateway (Some rg) role s = Inr (c, s)" by (simp add: GetAPIGateway_def)
next
  assume "apiGateway e = None" and "session s = None"
  with assms show "GetAPIGateway (Some rg) role s = Inl NilPointerDereference"
    by (simp add: GetAPIGateway_def)
next
  let ?c = "createAPIGatewaySession h rg role (fips s) (IsDebugEnabled (logger s))"
  assume empty: "apiGateway e = None" and h: "session s = Some h"
  have "lazyBuilt s role rg ?c (e\<lparr>apiGateway := Some ?c\<rparr>)
          (built (updEntry role rg (\<lambda>e. e\<lparr>apiGateway := Some ?c\<rparr>) s))"
    using assms h
    by (intro lazyBuiltI) (simp_all add: builder_session builder_credentials builder_region)
  moreover have "GetAPIGateway (Some rg) role s =
                   Inr (?c, built (updEntry role rg (\<lambda>e. e\<lparr>apiGateway := Some ?c\<rparr>) s))"
    using assms empty h by (simp add: GetAPIGateway_def Let_def)
  ultimately show "\<exists>c' s'. GetAPIGateway (Some rg) role s = Inr (c', s') \<and> service c' = APIGateway \<and>
                      lazyBuilt s role rg c' (e\<lparr>apiGateway := Some c'\<rparr>) s'"
    by (simp add: builder_service)
qed

lemma GetSTS_declared:
  assumes "fmlookup (stscache s) role = Some slot"
  shows "(slot = Some c \<longrightarrow> GetSTS role s = Inr (c, s)) \<and>
         (slot = None \<longrightarrow> session s = None \<longrightarrow> GetSTS role s = Inl NilPointerDereference) \<and>
         (slot = None \<longrightarrow> session s = Some h \<longrightarrow>
            (\<exists>c' s'. GetSTS role s = Inr (c', s') \<and> service c' = STS \<and>
                      clientSession c' = h \<and>
                      Credentials (clientConfig c') = assumeRole h role \<and>
                      fmlookup (stscache s') role = Some (Some c') \<and>
                      (\<forall>r'. r' \<noteq> role \<longrightarrow> fmlookup (stscache s') r' = fmlookup (stscache s) r') \<and>
                      fmdom' (stscache s') = fmdom' (stscache s) \<and>
                      clients s' = clients s \<and>
                      clientsBuilt s' = clientsBuilt s + 1 \<and>
                      sameFrame s s'))"
proof -
  have "role \<in> fmdom' (stscache s)" using assms by (rule fmdom'I)
  then have "insert role (fmdom' (stscache s)) = fmdom' (stscache s)" by blast
  with assms show ?thesis
    by (simp add: GetSTS_def Let_def built_def builder_session builder_service
                  builder_credentials sameFrame_def)
qed

text \<open>
  C4, as the code has it.  For a key that is in the maps, an accessor whose slot
  holds a client returns that client and leaves the cache as it is.  When the slot is
  empty and the cache has a session handle, one client is built (the builder counter
  grows by one) on that handle, with the credentials the role asks for; it is stored
  in that slot and returned, and no other slot, key, flag or setting changes.  When
  the slot is empty and the cache has no session handle, which is the case until the
  first Refresh, the accessor panics with a nil-pointer dereference: the caller gets
  no client for a declared key.
\<close>

theorem accessors_get_or_build:
  "(fmlookup (stscache s) stsRole = Some slot \<longrightarrow>
      (slot = Some c \<longrightarrow> GetSTS stsRole s = Inr (c, s)) \<and>
      (slot = None \<longrightarrow> session s = None \<longrightarrow> GetSTS stsRole s = Inl NilPointerDereference) \<and>
      (slot = None \<longrightarrow> session s = Some h \<longrightarrow>
         (\<exists>c' s'. GetSTS stsRole s = Inr (c', s') \<and> service c' = STS \<and>
                   clientSession c' = h \<and>
                   Credentials (clientConfig c') = assumeRole h stsRole \<and>
                   fmlookup (stscache s') stsRole = Some (Some c') \<and>
                   (\<forall>r'. r' \<noteq> stsRole \<longrightarrow> fmlookup (stscache s') r' = fmlookup (stscache s) r') \<and>
                   fmdom' (stscache s') = fmdom' (stscache s) \<and>
                   clients s' = clients s \<and>
                   clientsBuilt s' = clientsBuilt s + 1 \<and>
                   sameFrame s s'))) \<and>
   (lookupEntry s role rg = Some e \<longrightarrow>
      (cloudwatch e = Some c \<longrightarrow> GetCloudwatch (Some rg) role s = Inr (c, s)) \<and>
      (cloudwatch e = None \<longrightarrow> session s = None \<longrightarrow>
         GetCloudwatch (Some rg) role s = Inl NilPointerDereference) \<and>
      (cloudwatch e = None \<longrightarrow> session s = Some h \<longrightarrow>
         (\<exists>c' s'. GetCloudwatch (Some rg) role s = Inr (c', s') \<and> service c' = CloudWatch \<and>
                   lazyBuilt s role rg c' (e\<lparr>cloudwatch := Some c'\<rparr>) s')) \<and>
      (tagging e = Some c \<longrightarrow> GetTagging (Some rg) role s = Inr (c, s)) \<and>
      (tagging e = None \<longrightarrow> session s = None \<longrightarrow>
         GetTagging (Some rg) role s = Inl NilPointerDereference) \<and>
      (tagging e = None \<longrightarrow> session s = Some h \<longrightarrow>
         (\<exists>c' s'. GetTagging (Some rg) role s = Inr (c', s') \<and> service c' = ResourceGroupsTaggingAPI \<and>
                   lazyBuilt s role rg c' (e\<lparr>tagging := Some c'\<rparr>) s')) \<and>
      (asg e = Some c \<longrightarrow> GetASG (Some rg) role s = Inr (c, s)) \<and>
      (asg e = None \<longrightarrow> session s = None \<longrightarrow>
         GetASG (Some rg) role s = Inl NilPointerDereference) \<and>
      (asg e = None \<longrightarrow> session s = Some h \<longrightarrow>
         (\<exists>c' s'. GetASG (Some rg) role s = Inr (c', s') \<and> service c' = AutoScaling \<and>
                   lazyBuilt s role rg c' (e\<lparr>asg := Some c'\<rparr>) s')) \<and>
      (ec2 e = Some c \<longrightarrow> GetEC2 (Some rg) role s = Inr (c, s)) \<and>
      (ec2 e = None \<longrightarrow> session s = None \<longrightarrow>
         GetEC2 (Some rg) role s = Inl NilPointerDereference) \<and>
      (ec2 e = None \<longrightarrow> session s = Some h \<longrightarrow>
         (\<exists>c' s'. GetEC2 (Some rg) role s = Inr (c', s') \<and> service c' = EC2 \<and>
                   lazyBuilt s role rg c' (e\<lparr>ec2 := Some c'\<rparr>) s')) \<and>
      (dms e = Some c \<longrightarrow> GetDMS (Some rg) role s = Inr (c, s)) \<and>
      (dms e = None \<longrightarrow> session s = None \<longrightarrow>
         GetDMS (Some rg) role s = Inl NilPointerDereference) \<and>
      (dms e = None \<longrightarrow> session s = Some h \<longrightarrow>
         (\<exists>c' s'. GetDMS (Some rg) role s = Inr (c', s') \<and> service c' = DatabaseMigrationService \<and>
                   lazyBuilt s role rg c' (e\<lparr>dms := Some c'\<rparr>) s')) \<and>
      (apiGateway e = Some c \<longrightarrow> GetAPIGateway (Some rg) role s = Inr (c, s)) \<and>
      (apiGateway e = None \<longrightarrow> session s = None \<longrightarrow>
         GetAPIGateway (Some rg) role s = Inl NilPointerDereference) \<and>
      (apiGateway e = None \<longrightarrow> session s = Some h \<longrightarrow>
         (\<exists>c' s'. GetAPIGateway (Some rg) role s = Inr (c', s') \<and> service c' = APIGateway \<and>
                   lazyBuilt s role rg c' (e\<lparr>apiGateway := Some c'\<rparr>) s')))"
  apply (intro conjI impI)
  apply (erule (1) GetSTS_declared [THEN conjunct1, rule_format])
  apply (erule (2) GetSTS_declared [THEN conjunct2, THEN conjunct1, rule_format])
  apply (erule (2) GetSTS_declared [THEN conjunct2, THEN conjunct2, rule_format])
  apply (erule (1) GetCloudwatch_declared [THEN conjunct1, rule_format])
  apply (erule (2) GetCloudwatch_declared [THEN conjunct2, THEN conjunct1, rule_format])
  apply (erule (2) GetCloudwatch_declared [THEN conjunct2, THEN conjunct2, rule_format])
  apply (erule (1) GetTagging_declared [THEN conjunct1, rule_format])
  apply (erule (2) GetTagging_declared [THEN conjunct2, THEN conjunct1, rule_format])
  apply (erule (2) GetTagging_declared [THEN conjunct2, THEN conjunct2, rule_format])
  apply (erule (1) GetASG_declared [THEN conjunct1, rule_format])
  apply (erule (2) GetASG_declared [THEN conjunct2, THEN conjunct1, rule_format])
  apply (erule (2) GetASG_declared [THEN conjunct2, THEN conjunct2, rule_format])
  apply (erule (1) GetEC2_declared [THEN conjunct1, rule_format])
  apply (erule (2) GetEC2_declared [THEN conjunct2, THEN conjunct1, rule_format])
  apply (erule (2) GetEC2_declared [THEN conjunct2, THEN conjunct2, rule_format])
  apply (erule (1) GetDMS_declared [THEN conjunct1, rule_format])
  apply (erule (2) GetDMS_declared [THEN conjunct2, THEN conjunct1, rule_format])
  apply (erule (2) GetDMS_declared [THEN conjunct2, THEN conjunct2, rule_format])
  apply (erule (1) GetAPIGateway_declared [THEN conjunct1, rule_format])
  apply (erule (2) GetAPIGateway_declared [THEN conjunct2, THEN conjunct1, rule_format])
  apply (erule (2) GetAPIGateway_declared [THEN conjunct2, THEN conjunct2, rule_format])
  done

theorem accessors_get_or_build_witness:
  "fmlookup (stscache scenarioCache) roleX = Some None \<and>
   lookupEntry scenarioCache roleX ''us-east-1'' = Some (newClientCache False) \<and>
   cloudwatch (newClientCache False) = None \<and>
   session scenarioCache = None \<and>
   GetSTS roleX scenarioCache = Inl NilPointerDereference \<and>
   GetCloudwatch (Some ''us-east-1'') roleX scenarioCache = Inl NilPointerDereference \<and>
   lookupEntry (Refresh scenarioCache) roleX ''us-east-1'' =
     Some (refreshEntry scenarioSession True False roleX ''us-east-1'' (newClientCache False)) \<and>
   GetCloudwatch (Some ''us-east-1'') roleX (Refresh scenarioCache) =
     Inr (createCloudwatchSession scenarioSession ''us-east-1'' roleX True False,
          Refresh scenarioCache) \<and>
   fmlookup (stscache (Clear (Refresh scenarioCache))) roleX = Some None \<and>
   lookupEntry (Clear (Refresh scenarioCache)) roleX ''us-east-1'' =
     Some (newClientCache False) \<and>
   session (Clear (Refresh scenarioCache)) = Some scenarioSession \<and>
   (\<exists>c' s'. GetSTS roleX (Clear (Refresh scenarioCache)) = Inr (c', s') \<and>
             clientSession c' = scenarioSession \<and>
             Credentials (clientConfig c') =
               Some \<lparr>providerSession = scenarioSession,
                      providerRoleArn = ''arn:aws:iam::123:role/X'',
                      providerExternalID = None\<rparr> \<and>
             fmlookup (stscache s') roleX = Some (Some c') \<and> clientsBuilt s' = 10) \<and>
   (\<exists>c' s'. GetCloudwatch (Some ''us-east-1'') roleX (Clear (Refresh scenarioCache)) =
               Inr (c', s') \<and>
             clientSession c' = scenarioSession \<and>
             Credentials (clientConfig c') =
               Some \<lparr>providerSession = scenarioSession,
                      providerRoleArn = ''arn:aws:iam::123:role/X'',
                      providerExternalID = None\<rparr> \<and>
             lookupEntry s' roleX ''us-east-1'' =
               Some ((newClientCache False)\<lparr>cloudwatch := Some c'\<rparr>) \<and>
             clientsBuilt s' = 10)"
proof -
  let ?cw = "createCloudwatchSession scenarioSession ''us-east-1'' roleX True False"
  let ?w = "refreshEntry scenarioSession True False roleX ''us-east-1'' (newClientCache False)"
  have e: "cloudwatch (newClientCache False) = None" by (simp add: newClientCache_def)
  have we: "cloudwatch ?w = Some ?cw" by (simp add: warm_entry_slots)
  have ar: "assumeRole scenarioSession roleX =
              Some \<lparr>providerSession = scenarioSession,
                     providerRoleArn = ''arn:aws:iam::123:role/X'',
                     providerExternalID = None\<rparr>"
    by (simp add: assumeRole_def roleX_def)
  note F = accessors_get_or_build [of scenarioCache roleX None ?cw scenarioSession roleX
             "''us-east-1''" "newClientCache False"]
  note W = accessors_get_or_build [of "Refresh scenarioCache" roleX None ?cw scenarioSession
             roleX "''us-east-1''" ?w]
  note K = accessors_get_or_build [of "Clear (Refresh scenarioCache)" roleX None ?cw
             scenarioSession roleX "''us-east-1''" "newClientCache False"]
  note F1 = F [THEN conjunct1, rule_format, OF scenario_sts(1), THEN conjunct2, THEN conjunct1,
               rule_format, OF refl scenario_flags(3)]
  note F2 = F [THEN conjunct2, rule_format, OF scenario_entries(1), THEN conjunct2,
               THEN conjunct1, rule_format, OF e scenario_flags(3)]
  note W2 = W [THEN conjunct2, rule_format, OF warm_entries(1), THEN conjunct1, rule_format,
               OF we]
  note K1 = K [THEN conjunct1, rule_format, OF cold_entries(1), THEN conjunct2, THEN conjunct2,
               rule_format, OF refl cold_frame(1)]
  note K2 = K [THEN conjunct2, rule_format, OF cold_entries(2), THEN conjunct2, THEN conjunct2,
               THEN conjunct1, rule_format, OF e cold_frame(1)]
  from K1 obtain c1 s1 where s1: "GetSTS roleX (Clear (Refresh scenarioCache)) = Inr (c1, s1)"
      "clientSession c1 = scenarioSession"
      "Credentials (clientConfig c1) = assumeRole scenarioSession roleX"
      "fmlookup (stscache s1) roleX = Some (Some c1)"
      "clientsBuilt s1 = clientsBuilt (Clear (Refresh scenarioCache)) + 1"
    by blast
  from K2 obtain c2 s2 where
      s2: "GetCloudwatch (Some ''us-east-1'') roleX (Clear (Refresh scenarioCache)) = Inr (c2, s2)"
      and lb: "lazyBuilt (Clear (Refresh scenarioCache)) roleX ''us-east-1'' c2
                 ((newClientCache False)\<lparr>cloudwatch := Some c2\<rparr>) s2"
    by blast
  from lb have c2: "clientSession c2 = scenarioSession"
      "Credentials (clientConfig c2) = assumeRole scenarioSession roleX"
      "lookupEntry s2 roleX ''us-east-1'' = Some ((newClientCache False)\<lparr>cloudwatch := Some c2\<rparr>)"
      "clientsBuilt s2 = clientsBuilt (Clear (Refresh scenarioCache)) + 1"
    by (simp_all add: lazyBuilt_def cold_frame)
  have "\<exists>c' s'. GetSTS roleX (Clear (Refresh scenarioCache)) = Inr (c', s') \<and>
             clientSession c' = scenarioSession \<and>
             Credentials (clientConfig c') =
               Some \<lparr>providerSession = scenarioSession,
                      providerRoleArn = ''arn:aws:iam::123:role/X'',
                      providerExternalID = None\<rparr> \<and>
             fmlookup (stscache s') roleX = Some (Some c') \<and> clientsBuilt s' = 10"
    using s1 ar by (simp add: cold_frame)
  moreover have "\<exists>c' s'. GetCloudwatch (Some ''us-east-1'') roleX (Clear (Refresh scenarioCache)) =
               Inr (c', s') \<and>
             clientSession c' = scenarioSession \<and>
             Credentials (clientConfig c') =
               Some \<lparr>providerSession = scenarioSession,
                      providerRoleArn = ''arn:aws:iam::123:role/X'',
                      providerExternalID = None\<rparr> \<and>
             lookupEntry s' roleX ''us-east-1'' =
               Some ((newClientCache False)\<lparr>cloudwatch := Some c'\<rparr>) \<and>
             clientsBuilt s' = 10"
    using s2 c2 ar by (simp add: cold_frame)
  ultimately show ?thesis
    using F1 F2 W2 e scenario_sts(1) scenario_entries(1) scenario_flags(3) warm_entries(1)
          cold_entries cold_frame(1)
    by simp
qed

section \<open>The accessors on undeclared keys\<close>

lemma undeclared_panics:
  assumes "lookupEntry s role rg = None"
  shows "GetCloudwatch (Some rg) role s = Inl NilPointerDereference"
    and "GetTagging (Some rg) role s = Inl NilPointerDereference"
    and "GetASG (Some rg) role s = Inl NilPointerDereference"
    and "GetEC2 (Some rg) role s = Inl NilPointerDereference"
    and "GetDMS (Some rg) role s = Inl NilPointerDereference"
    and "GetAPIGateway (Some rg) role s = Inl NilPointerDereference"
  using assms
  by (simp_all add: GetCloudwatch_def GetTagging_def GetASG_def GetEC2_def GetDMS_def
                    GetAPIGateway_def)

lemma GetSTS_undeclared:
  assumes "fmlookup (stscache s) role = None" and "session s = Some h"
  shows "\<exists>c s'. GetSTS role s = Inr (c, s') \<and>
                 fmdom' (stscache s') = insert role (fmdom' (stscache s)) \<and>
                 fmlookup (stscache s') role = Some (Some c)"
  using assms by (simp add: GetSTS_def Let_def built_def)

lemma GetSTS_undeclared_nil:
  assumes "fmlookup (stscache s) role = None" and "session s = None"
  shows "GetSTS role s = Inl NilPointerDereference"
  using assms by (simp add: GetSTS_def)

lemma GetSTS_sts_dom:
  "GetSTS role s = Inr (c, s') \<Longrightarrow> fmdom' (stscache s') = insert role (fmdom' (stscache s))"
  by (auto simp: GetSTS_def Let_def built_def fmlookup_dom'_iff split: option.splits)

lemma region_accessor_stscache:
  "GetCloudwatch region role s = Inr (c, s') \<Longrightarrow> stscache s' = stscache s"
  "GetTagging region role s = Inr (c, s') \<Longrightarrow> stscache s' = stscache s"
  "GetASG region role s = Inr (c, s') \<Longrightarrow> stscache s' = stscache s"
  "GetEC2 region role s = Inr (c, s') \<Longrightarrow> stscache s' = stscache s"
  "GetDMS region role s = Inr (c, s') \<Longrightarrow> stscache s' = stscache s"
  "GetAPIGateway region role s = Inr (c, s') \<Longrightarrow> stscache s' = stscache s"
  by (auto simp: GetCloudwatch_def GetTagging_def GetASG_def GetEC2_def GetDMS_def
                 GetAPIGateway_def Let_def built_updEntry_fields split: option.splits)

lemma GetSTS_clients: "GetSTS role s = Inr (c, s') \<Longrightarrow> clients s' = clients s"
  by (auto simp: GetSTS_def Let_def built_def split: option.splits)

lemma accessor_clients_dom:
  "GetSTS role s = Inr (c, s') \<Longrightarrow> fmdom' (clients s') = fmdom' (clients s)"
  "GetCloudwatch region role s = Inr (c, s') \<Longrightarrow> fmdom' (clients s') = fmdom' (clients s)"
  "GetTagging region role s = Inr (c, s') \<Longrightarrow> fmdom' (clients s') = fmdom' (clients s)"
  "GetASG region role s = Inr (c, s') \<Longrightarrow> fmdom' (clients s') = fmdom' (clients s)"
  "GetEC2 region role s = Inr (c, s') \<Longrightarrow> fmdom' (clients s') = fmdom' (clients s)"
  "GetDMS region role s = Inr (c, s') \<Longrightarrow> fmdom' (clients s') = fmdom' (clients s)"
  "GetAPIGateway region role s = Inr (c, s') \<Longrightarrow> fmdom' (clients s') = fmdom' (clients s)"
  by (auto simp: GetSTS_clients GetCloudwatch_def GetTagging_def GetASG_def GetEC2_def GetDMS_def
                 GetAPIGateway_def Let_def built_updEntry_fields split: option.splits)

lemma Refresh_doms:
  "fmdom' (stscache (Refresh s)) = fmdom' (stscache s)"
  "fmdom' (clients (Refresh s)) = fmdom' (clients s)"
proof -
  show "fmdom' (stscache (Refresh s)) = fmdom' (stscache s)"
  proof (cases "refreshed s")
    case True
    then show ?thesis by (simp add: Refresh_def)
  next
    case False
    then show ?thesis by (simp add: Refresh_fresh refreshAll_fields)
  qed
  show "fmdom' (clients (Refresh s)) = fmdom' (clients s)"
  proof (cases "refreshed s")
    case True
    then show ?thesis by (simp add: Refresh_def)
  next
    case False
    then show ?thesis by (simp add: Refresh_fresh refreshAll_fields)
  qed
qed

lemma step_clients_dom: "step c s = Inr s' \<Longrightarrow> fmdom' (clients s') = fmdom' (clients s)"
  by (cases c) (auto dest!: map_sum_snd_Inr simp: Refresh_doms Clear_doms accessor_clients_dom)

lemma step_sts_dom_other:
  "step c s = Inr s' \<Longrightarrow> \<forall>stsRole. c \<noteq> CallGetSTS stsRole
     \<Longrightarrow> fmdom' (stscache s') = fmdom' (stscache s)"
  by (cases c) (auto dest!: map_sum_snd_Inr simp: Refresh_doms Clear_doms region_accessor_stscache)

lemma step_sts_dom_GetSTS:
  "step (CallGetSTS stsRole) s = Inr s' \<Longrightarrow>
     fmdom' (stscache s') = insert stsRole (fmdom' (stscache s))"
  by (auto dest!: map_sum_snd_Inr simp: GetSTS_sts_dom)

lemma step_pair_keys:
  "step c s = Inr s' \<Longrightarrow> (lookupEntry s' r rg = None) = (lookupEntry s r rg = None)"
  by (simp add: step_entry)

text \<open>
  C3, as amended.  For a pair outside the key space the six region-keyed accessors
  panic with a nil-pointer dereference, and a panic leaves no new state.  GetSTS for
  a role outside the key space, on a cache that has a session handle, does not fail:
  it builds a client and adds the role as a new key of the identity map; on a cache
  that has no session handle yet it panics like the others.  No call ever adds a key
  to the role-region maps, and no call other than GetSTS changes the keys of the
  identity map.
\<close>

theorem undeclared_keys:
  "(lookupEntry s role rg = None \<longrightarrow>
      GetCloudwatch (Some rg) role s = Inl NilPointerDereference \<and>
      GetTagging (Some rg) role s = Inl NilPointerDereference \<and>
      GetASG (Some rg) role s = Inl NilPointerDereference \<and>
      GetEC2 (Some rg) role s = Inl NilPointerDereference \<and>
      GetDMS (Some rg) role s = Inl NilPointerDereference \<and>
      GetAPIGateway (Some rg) role s = Inl NilPointerDereference) \<and>
   (fmlookup (stscache s) stsRole = None \<longrightarrow>
      (session s = None \<longrightarrow> GetSTS stsRole s = Inl NilPointerDereference) \<and>
      (session s = Some h \<longrightarrow>
         (\<exists>c s'. GetSTS stsRole s = Inr (c, s') \<and>
                  fmdom' (stscache s') = insert stsRole (fmdom' (stscache s)) \<and>
                  fmlookup (stscache s') stsRole = Some (Some c)))) \<and>
   (step call s = Inr t \<longrightarrow>
      fmdom' (clients t) = fmdom' (clients s) \<and>
      (lookupEntry t r rg' = None) = (lookupEntry s r rg' = None) \<and>
      ((\<forall>x. call \<noteq> CallGetSTS x) \<longrightarrow> fmdom' (stscache t) = fmdom' (stscache s)) \<and>
      (\<forall>x. call = CallGetSTS x \<longrightarrow> fmdom' (stscache t) = insert x (fmdom' (stscache s))))"
  apply (intro conjI impI allI)
  apply (erule undeclared_panics(1))
  apply (erule undeclared_panics(2))
  apply (erule undeclared_panics(3))
  apply (erule undeclared_panics(4))
  apply (erule undeclared_panics(5))
  apply (erule undeclared_panics(6))
  apply (erule (1) GetSTS_undeclared_nil)
  apply (erule (1) GetSTS_undeclared)
  apply (erule step_clients_dom)
  apply (erule step_pair_keys)
  apply (erule (1) step_sts_dom_other)
  apply (simp add: step_sts_dom_GetSTS)
  done

lemma scenario_undeclared:
  "fmlookup (stscache scenarioCache) roleUndeclared = None"
  "lookupEntry scenarioCache roleAmbient ''us-east-1'' = None"
  by (simp_all add: scenarioCache_def New_sts New_lookupEntry rolesOf_def pairsOf_def
                    scenarioConf_def roleUndeclared_def roleX_def roleAmbient_def)

lemma warm_undeclared:
  "fmlookup (stscache (Refresh scenarioCache)) roleUndeclared = None"
  "lookupEntry (Refresh scenarioCache) roleAmbient ''us-east-1'' = None"
  by (simp_all add: sts_Refresh lookupEntry_Refresh scenario_flags scenario_undeclared)

theorem undeclared_keys_witness:
  "lookupEntry (Refresh scenarioCache) roleAmbient ''us-east-1'' = None \<and>
   fmlookup (stscache (Refresh scenarioCache)) roleUndeclared = None \<and>
   session (Refresh scenarioCache) = Some scenarioSession \<and>
   fmlookup (stscache scenarioCache) roleUndeclared = None \<and>
   session scenarioCache = None \<and>
   step CallClear (Refresh scenarioCache) = Inr (Clear (Refresh scenarioCache)) \<and>
   GetEC2 (Some ''us-east-1'') roleAmbient (Refresh scenarioCache) = Inl NilPointerDereference \<and>
   GetSTS roleUndeclared scenarioCache = Inl NilPointerDereference \<and>
   (\<exists>c s'. GetSTS roleUndeclared (Refresh scenarioCache) = Inr (c, s') \<and>
            fmlookup (stscache s') roleUndeclared = Some (Some c)) \<and>
   fmdom' (stscache (Clear (Refresh scenarioCache))) = fmdom' (stscache (Refresh scenarioCache))"
proof -
  note T = undeclared_keys [of "Refresh scenarioCache" roleAmbient "''us-east-1''" roleUndeclared
             scenarioSession CallClear "Clear (Refresh scenarioCache)" roleX "''us-east-1''"]
  note U = undeclared_keys [of scenarioCache roleAmbient "''us-east-1''" roleUndeclared
             scenarioSession CallClear "Clear scenarioCache" roleX "''us-east-1''"]
  have st: "step CallClear (Refresh scenarioCache) = Inr (Clear (Refresh scenarioCache))" by simp
  note A = T [THEN conjunct1, rule_format, OF warm_undeclared(2)]
  note B = T [THEN conjunct2, THEN conjunct1, rule_format, OF warm_undeclared(1),
              THEN conjunct2, rule_format, OF warm_frame(1)]
  note C = T [THEN conjunct2, THEN conjunct2, rule_format, OF st]
  note D = U [THEN conjunct2, THEN conjunct1, rule_format, OF scenario_undeclared(1),
              THEN conjunct1, rule_format, OF scenario_flags(3)]
  from B obtain c s' where "GetSTS roleUndeclared (Refresh scenarioCache) = Inr (c, s')"
      "fmlookup (stscache s') roleUndeclared = Some (Some c)" by blast
  with A C D warm_undeclared warm_frame(1) scenario_undeclared(1) scenario_flags(3)
  show ?thesis by simp
qed

theorem undeclared_role_counterexample:
  "fmlookup (stscache (Refresh scenarioCache)) roleUndeclared = None \<and>
   roleUndeclared \<notin> fmdom' (stscache (Refresh scenarioCache)) \<and>
   (case GetSTS roleUndeclared (Refresh scenarioCache) of
      Inl err \<Rightarrow> False
    | Inr (c, s') \<Rightarrow> fmlookup (stscache s') roleUndeclared = Some (Some c) \<and>
                     roleUndeclared \<in> fmdom' (stscache s'))"
  by (simp add: warm_undeclared warm_frame GetSTS_def Let_def built_def fmdom'_notI)

section \<open>The session handle\<close>

lemma step_keeps_session:
  assumes "step c s = Inr s'" and "session s = Some h"
  shows "session s' = Some h \<and> sessionsCreated s' = sessionsCreated s"
proof (cases "c = CallRefresh \<or> c = CallClear")
  case True
  with assms show ?thesis
    by (auto simp: Refresh_session ensuredSession_def Clear_frame)
next
  case False
  with assms(1) have "sameFrame s s'" by (simp add: step_accessor_frame)
  with assms(2) show ?thesis by (simp add: sameFrame_def)
qed

lemma step_no_session:
  assumes "step c s = Inr s'" and "c \<noteq> CallRefresh"
  shows "session s' = session s \<and> sessionsCreated s' = sessionsCreated s"
proof (cases "c = CallClear")
  case True
  with assms show ?thesis by (auto simp: Clear_frame)
next
  case False
  with assms have "sameFrame s s'" by (simp add: step_accessor_frame)
  then show ?thesis by (simp add: sameFrame_def)
qed

lemma sessionOnce_step: "sessionOnce s \<Longrightarrow> step c s = Inr s' \<Longrightarrow> sessionOnce s'"
proof (cases "c = CallRefresh")
  case True
  assume "sessionOnce s" "step c s = Inr s'"
  with True show ?thesis
    by (cases "session s") (auto simp: sessionOnce_def Refresh_session ensuredSession_def)
next
  case False
  assume "sessionOnce s" "step c s = Inr s'"
  with False step_no_session [of c s s'] show ?thesis
    by (cases "session s") (simp_all add: sessionOnce_def)
qed

lemma sessionOnce_run: "sessionOnce s \<Longrightarrow> run calls s = Inr s' \<Longrightarrow> sessionOnce s'"
  by (induction calls arbitrary: s) (auto split: sum.splits dest: sessionOnce_step)

lemma run_keeps_session:
  "session s = Some h \<Longrightarrow> run calls s = Inr s' \<Longrightarrow>
     session s' = Some h \<and> sessionsCreated s' = sessionsCreated s"
proof (induction calls arbitrary: s)
  case Nil
  then show ?case by simp
next
  case (Cons c cs)
  from Cons.prems(2) obtain s1 where s1: "step c s = Inr s1" and rest: "run cs s1 = Inr s'"
    by (auto split: sum.splits)
  from step_keeps_session [OF s1 Cons.prems(1)] Cons.IH [OF _ rest] show ?case by simp
qed

text \<open>
  What does hold of the session handle: over any run from a constructed cache at most
  one handle is created, a handle once there is never replaced (Clear included), and
  only a Refresh creates it.
\<close>

lemma session_created_at_most_once:
  assumes "run calls (NewSessionCache config f lg url) = Inr s"
  shows "sessionsCreated s \<le> 1 \<and> (session s = None \<longleftrightarrow> sessionsCreated s = 0)"
proof -
  have "sessionOnce (NewSessionCache config f lg url)"
    by (simp add: sessionOnce_def NewSessionCache_def)
  from sessionOnce_run [OF this assms] show ?thesis
    by (cases "session s") (simp_all add: sessionOnce_def)
qed

lemma session_only_by_Refresh:
  "CallRefresh \<notin> set calls \<Longrightarrow> run calls s = Inr s' \<Longrightarrow>
     session s' = session s \<and> sessionsCreated s' = sessionsCreated s"
proof (induction calls arbitrary: s)
  case Nil
  then show ?case by simp
next
  case (Cons c cs)
  from Cons.prems(2) obtain s1 where s1: "step c s = Inr s1" and rest: "run cs s1 = Inr s'"
    by (auto split: sum.splits)
  from Cons.prems(1) have "c \<noteq> CallRefresh" "CallRefresh \<notin> set cs" by auto
  from step_no_session [OF s1 this(1)] Cons.IH [OF this(2) rest] show ?case by simp
qed

text \<open>
  C2, at the failing input.  On a freshly constructed cache the first call is a Get
  for a declared key.  The cache has no session handle, GetSTS and GetCloudwatch do
  not create one: they hand the nil handle to the builder, which panics, so the run
  ends there with no session created.  A first Refresh does create the handle, once,
  and a Get after it builds on that handle and leaves it in place.
\<close>

theorem get_before_refresh_creates_no_session:
  "session scenarioCache = None \<and> sessionsCreated scenarioCache = 0 \<and>
   fmlookup (stscache scenarioCache) roleX = Some None \<and>
   lookupEntry scenarioCache roleX ''us-east-1'' = Some (newClientCache False) \<and>
   GetSTS roleX scenarioCache = Inl NilPointerDereference \<and>
   GetCloudwatch (Some ''us-east-1'') roleX scenarioCache = Inl NilPointerDereference \<and>
   run [CallGetSTS roleX, CallRefresh] scenarioCache = Inl NilPointerDereference \<and>
   session (Refresh scenarioCache) = Some scenarioSession \<and>
   sessionsCreated (Refresh scenarioCache) = 1 \<and>
   map_sum id (\<lambda>r. (clientSession (fst r), session (snd r), sessionsCreated (snd r)))
     (GetSTS roleX (Clear (Refresh scenarioCache))) = Inr (scenarioSession, Some scenarioSession, 1)"
  by (simp add: GetSTS_def GetCloudwatch_def Let_def built_def scenario_flags
                scenario_sts scenario_entries newClientCache_def builder_session
                Refresh_session scenario_ensured cold_frame cold_entries)

section \<open>The flags given to the builders\<close>

lemma LogLevel_tag_asg:
  "LogLevel (clientConfig (createTagSession sess rg role dbg)) =
     (if dbg then Some LogDebugWithHTTPBody else None)"
  "LogLevel (clientConfig (createASGSession sess rg role dbg)) =
     (if dbg then Some LogDebugWithHTTPBody else None)"
  by (simp_all add: createTagSession_def createASGSession_def Let_def withDebug_def
                    setSTSCreds_def emptyConfig_def)

text \<open>
  The lazy GetTagging and GetASG give the builder the compliance-mode flag where it
  expects the debug flag, on every cache that has a session handle and an empty slot.
\<close>

lemma lazy_tagging_asg_LogLevel:
  assumes "lookupEntry s role rg = Some e" and "session s = Some h"
  shows "tagging e = None \<Longrightarrow>
           map_sum id (\<lambda>r. LogLevel (clientConfig (fst r))) (GetTagging (Some rg) role s) =
             Inr (if fips s then Some LogDebugWithHTTPBody else None)"
    and "asg e = None \<Longrightarrow>
           map_sum id (\<lambda>r. LogLevel (clientConfig (fst r))) (GetASG (Some rg) role s) =
             Inr (if fips s then Some LogDebugWithHTTPBody else None)"
proof -
  show "tagging e = None \<Longrightarrow>
           map_sum id (\<lambda>r. LogLevel (clientConfig (fst r))) (GetTagging (Some rg) role s) =
             Inr (if fips s then Some LogDebugWithHTTPBody else None)"
    using assms by (simp add: GetTagging_def Let_def LogLevel_tag_asg)
  show "asg e = None \<Longrightarrow>
           map_sum id (\<lambda>r. LogLevel (clientConfig (fst r))) (GetASG (Some rg) role s) =
             Inr (if fips s then Some LogDebugWithHTTPBody else None)"
    using assms by (simp add: GetASG_def Let_def LogLevel_tag_asg)
qed

text \<open>
  C5, at the failing input.  The cache of the scenario has compliance mode on and
  debug logging off.  Its first Refresh creates a session without debug logging and
  builds the tagging and autoscaling clients without debug logging.  After a Clear,
  the lazy GetTagging and GetASG on the same key and the same session build clients
  with debug logging on, while the lazy GetEC2, which passes both flags, builds one
  without.
\<close>

theorem lazy_tagging_asg_take_fips_for_debug:
  "fips scenarioCache \<and> \<not> IsDebugEnabled (logger scenarioCache) \<and>
   sessLogLevel scenarioSession = None \<and>
   session (Refresh scenarioCache) = Some scenarioSession \<and>
   map_option (\<lambda>e. (map_option (\<lambda>c. LogLevel (clientConfig c)) (tagging e),
                    map_option (\<lambda>c. LogLevel (clientConfig c)) (asg e)))
     (lookupEntry (Refresh scenarioCache) roleX ''us-east-1'') = Some (Some None, Some None) \<and>
   session (Clear (Refresh scenarioCache)) = Some scenarioSession \<and>
   fips (Clear (Refresh scenarioCache)) \<and>
   \<not> IsDebugEnabled (logger (Clear (Refresh scenarioCache))) \<and>
   map_sum id (\<lambda>r. (clientSession (fst r), LogLevel (clientConfig (fst r))))
     (GetTagging (Some ''us-east-1'') roleX (Clear (Refresh scenarioCache))) =
       Inr (scenarioSession, Some LogDebugWithHTTPBody) \<and>
   map_sum id (\<lambda>r. (clientSession (fst r), LogLevel (clientConfig (fst r))))
     (GetASG (Some ''us-east-1'') roleX (Clear (Refresh scenarioCache))) =
       Inr (scenarioSession, Some LogDebugWithHTTPBody) \<and>
   map_sum id (\<lambda>r. (clientSession (fst r), LogLevel (clientConfig (fst r))))
     (GetEC2 (Some ''us-east-1'') roleX (Clear (Refresh scenarioCache))) =
       Inr (scenarioSession, None)"
proof -
  have h: "sessLogLevel scenarioSession = None"
    by (simp add: scenarioSession_def createAWSSession_def)
  have e: "tagging (newClientCache False) = None" "asg (newClientCache False) = None"
      "ec2 (newClientCache False) = None"
    by (simp_all add: newClientCache_def)
  have ec2: "LogLevel (clientConfig (createEC2Session sess rg role f False)) = None" for sess rg role f
    by (simp add: createEC2Session_def Let_def withDebug_def withFips_def setSTSCreds_def
                  emptyConfig_def)
  have warm: "map_option (\<lambda>e. (map_option (\<lambda>c. LogLevel (clientConfig c)) (tagging e),
                    map_option (\<lambda>c. LogLevel (clientConfig c)) (asg e)))
     (lookupEntry (Refresh scenarioCache) roleX ''us-east-1'') = Some (Some None, Some None)"
    by (simp add: warm_entries warm_entry_slots LogLevel_tag_asg)
  have lazy: "map_sum id (\<lambda>r. (clientSession (fst r), LogLevel (clientConfig (fst r))))
     (GetTagging (Some ''us-east-1'') roleX (Clear (Refresh scenarioCache))) =
       Inr (scenarioSession, Some LogDebugWithHTTPBody)"
    "map_sum id (\<lambda>r. (clientSession (fst r), LogLevel (clientConfig (fst r))))
     (GetASG (Some ''us-east-1'') roleX (Clear (Refresh scenarioCache))) =
       Inr (scenarioSession, Some LogDebugWithHTTPBody)"
    "map_sum id (\<lambda>r. (clientSession (fst r), LogLevel (clientConfig (fst r))))
     (GetEC2 (Some ''us-east-1'') roleX (Clear (Refresh scenarioCache))) =
       Inr (scenarioSession, None)"
    by (simp_all add: GetTagging_def GetASG_def GetEC2_def Let_def cold_frame cold_entries e
                      LogLevel_tag_asg builder_session ec2)
  show ?thesis
    using h warm lazy by (simp add: scenario_flags warm_frame cold_frame)
qed

end
